theory Spec2Isabelle
  imports Complex_Main
begin

section \<open>Values, errors and the static tables of the dashboard\<close>

text \<open>
  The dashboard (\<^verbatim>\<open>app/app.py\<close>) reads CSV files into data frames, filters, pivots and
  aggregates them, and hands the result to a plotting call. Exceptions are values of
  type \<open>error\<close>; a computation that can raise returns \<open>error + 'a\<close> with \<open>Inl\<close> the
  exception. Python dictionaries whose order matters (\<^verbatim>\<open>list(river_files.keys())\<close>) are
  association lists, looked up with \<open>map_of\<close>.
\<close>

datatype error =
    KeyError string
  | TypeError string
  | ValueError string
  | FetchError string
  | ParseError string
  | Unmodelled string

text \<open>
  \<open>Unmodelled\<close> is not an exception of the program: it marks a call of the data-frame
  library in a corner where this model does not follow the library (the call may return
  or raise there). Every theorem about a returned value is about the calls the model
  follows; the store and the caches are as the model says in either case.
\<close>

definition river_files :: "(string \<times> string) list" where
  "river_files =
    [(''Pullayup'', ''https://uw-psi.github.io/shinyapp/data/Pullayup.csv''),
     (''Snohomish'', ''https://uw-psi.github.io/shinyapp/data/Snohomish.csv''),
     (''Green'', ''https://uw-psi.github.io/shinyapp/data/Green.csv''),
     (''Samish'', ''https://uw-psi.github.io/shinyapp/data/Sammish.csv''),
     (''Stillaguamish'', ''https://uw-psi.github.io/shinyapp/data/Stillaguamish.csv''),
     (''Hoko'', ''https://uw-psi.github.io/shinyapp/data/Hoko.csv''),
     (''Elwha'', ''https://uw-psi.github.io/shinyapp/data/Elwha.csv''),
     (''Deschutes'', ''https://uw-psi.github.io/shinyapp/data/Deschutes.csv'')]"

text \<open>The two entries for \<^verbatim>\<open>temp2011\<close> and \<^verbatim>\<open>totN2011\<close> are commented out in the source.\<close>

definition velma_files :: "(string \<times> string) list" where
  "velma_files =
    [(''flow2011'', ''https://uw-psi.github.io/shinyapp/data/velma_monthly_flow_stats_2011.csv''),
     (''totC2011'', ''https://uw-psi.github.io/shinyapp/data/velma_monthly_C_stats_2011.csv'')]"

definition lcc_data :: "(string \<times> string) list" where
  "lcc_data =
    [(''counties'', ''https://uw-psi.github.io/shinyapp/data/diffed_counties.csv''),
     (''wrias'', ''https://uw-psi.github.io/shinyapp/data/diffed_wrias.csv''),
     (''velma'', ''https://uw-psi.github.io/shinyapp/data/diffed_velma.csv'')]"

definition region_type_options :: "string list" where
  "region_type_options = [''County'', ''WRIA'', ''VELMA watershed'']"

definition land_cover_colors :: "(string \<times> string) list" where
  "land_cover_colors =
    [(''Open Space'', ''#FFBEBE''),
     (''Low Intensity'', ''#FF7F7F''),
     (''Medium Intensity'', ''#E60000''),
     (''High Intensity'', ''#730000''),
     (''Forest'', ''#267300''),
     (''Agriculture'', ''#FFEBAF'')]"

text \<open>The \<^verbatim>\<open>choices\<close> dictionary of the \<^verbatim>\<open>velma_var\<close> radio buttons (value, label).\<close>

definition velma_var_choices :: "(string \<times> string) list" where
  "velma_var_choices =
    [(''flow2011'', ''Flow''),
     (''temp2011'', ''Temperature''),
     (''totN2011'', ''Total Nitrogen''),
     (''totC2011'', ''Total Carbon'')]"

text \<open>\<^verbatim>\<open>d[k]\<close> on a dictionary: the value, or \<^verbatim>\<open>KeyError\<close>.\<close>

definition dict_get :: "(string \<times> 'v) list \<Rightarrow> string \<Rightarrow> error + 'v" where
  "dict_get d k = (case map_of d k of None \<Rightarrow> Inl (KeyError k) | Some v \<Rightarrow> Inr v)"

section \<open>Data frames\<close>

text \<open>
  A CSV cell is missing (\<open>NaN\<close>), a number or a text. Numbers are exact rationals: every
  finite float of a CSV file is one, and rounding of float arithmetic is outside this
  model. A frame read from a CSV file has its header and its rows, each row a list of
  cells in header order.
\<close>

datatype cell = NaN | Num rat | Str string

record frame =
  columns :: "string list"
  rows :: "cell list list"

fun position :: "'a \<Rightarrow> 'a list \<Rightarrow> nat" where
  "position x [] = 0"
| "position x (y # ys) = (if x = y then 0 else Suc (position x ys))"

text \<open>\<^verbatim>\<open>df[c]\<close> raises \<^verbatim>\<open>KeyError\<close> when the frame has no column \<open>c\<close>.\<close>

definition col_index :: "frame \<Rightarrow> string \<Rightarrow> error + nat" where
  "col_index df c =
     (if c \<in> set (columns df) then Inr (position c (columns df)) else Inl (KeyError c))"

text \<open>A line of the file with fewer fields than the header is padded with missing cells.\<close>

definition cell_at :: "nat \<Rightarrow> cell list \<Rightarrow> cell" where
  "cell_at i r = (if i < length r then r ! i else NaN)"

definition getcol :: "frame \<Rightarrow> string \<Rightarrow> error + cell list" where
  "getcol df c =
     (case col_index df c of
        Inl e \<Rightarrow> Inl e
      | Inr i \<Rightarrow> Inr (map (cell_at i) (rows df)))"

text \<open>
  \<^verbatim>\<open>Series.unique()\<close>: the distinct values in order of first appearance (\<open>remdups\<close> of
  the library keeps the last appearance instead). Missing cells count as one value.
\<close>

fun unique_acc :: "'a list \<Rightarrow> 'a list \<Rightarrow> 'a list" where
  "unique_acc seen [] = rev seen"
| "unique_acc seen (x # xs) =
     (if x \<in> set seen then unique_acc seen xs else unique_acc (x # seen) xs)"

definition unique :: "'a list \<Rightarrow> 'a list" where
  "unique xs = unique_acc [] xs"

text \<open>\<^verbatim>\<open>df[c].unique().tolist()\<close>\<close>

definition unique_values :: "frame \<Rightarrow> string \<Rightarrow> error + cell list" where
  "unique_values df c =
     (case getcol df c of Inl e \<Rightarrow> Inl e | Inr xs \<Rightarrow> Inr (unique xs))"

text \<open>
  \<^verbatim>\<open>df[df[c] == v]\<close>: the rows whose cell in column \<open>c\<close> equals \<open>v\<close>, as a new frame
  with the same header. A missing cell equals nothing, not even a missing cell.
\<close>

definition cell_eq :: "cell \<Rightarrow> cell \<Rightarrow> bool" where
  "cell_eq a b = (a \<noteq> NaN \<and> b \<noteq> NaN \<and> a = b)"

definition select_eq :: "frame \<Rightarrow> string \<Rightarrow> cell \<Rightarrow> error + frame" where
  "select_eq df c v =
     (case col_index df c of
        Inl e \<Rightarrow> Inl e
      | Inr i \<Rightarrow> Inr (df\<lparr>rows := filter (\<lambda>r. cell_eq (cell_at i r) v) (rows df)\<rparr>))"

subsection \<open>Sorting group keys\<close>

text \<open>
  Group keys are sorted: numbers by value, texts by code point (the byte order of UTF-8
  is the code point order). A key column read from a CSV file holds numbers or texts,
  never both; the order puts numbers first so that it is total.
\<close>

fun str_le :: "string \<Rightarrow> string \<Rightarrow> bool" where
  "str_le [] t = True"
| "str_le (x # xs) [] = False"
| "str_le (x # xs) (y # ys) =
     (if x = y then str_le xs ys else (of_char x :: nat) < of_char y)"

fun cell_le :: "cell \<Rightarrow> cell \<Rightarrow> bool" where
  "cell_le NaN b = True"
| "cell_le (Num a) NaN = False"
| "cell_le (Num a) (Num b) = (a \<le> b)"
| "cell_le (Num a) (Str t) = True"
| "cell_le (Str s) (Str t) = str_le s t"
| "cell_le (Str s) b = False"

fun insert_cell :: "cell \<Rightarrow> cell list \<Rightarrow> cell list" where
  "insert_cell x [] = [x]"
| "insert_cell x (y # ys) = (if cell_le x y then x # y # ys else y # insert_cell x ys)"

fun sort_cells :: "cell list \<Rightarrow> cell list" where
  "sort_cells [] = []"
| "sort_cells (x # xs) = insert_cell x (sort_cells xs)"

subsection \<open>Aggregation\<close>

text \<open>
  The aggregations skip missing values. The mean, minimum and maximum of no value are
  missing; the sum of no value is 0. The arithmetic is exact: the wrap-around of a sum
  of 64-bit integers and the rounding of floating-point sums and means are outside this
  model, and no theorem below is about them. A text in the value column makes the mean
  raise \<^verbatim>\<open>TypeError\<close>; the sum of texts (the library concatenates them) is not followed.
\<close>

datatype aggfunc = Mean | Sum | Min_agg | Max_agg

definition present :: "rat option list \<Rightarrow> rat list" where
  "present vs = concat (map (\<lambda>v. case v of None \<Rightarrow> [] | Some x \<Rightarrow> [x]) vs)"

fun aggregate :: "aggfunc \<Rightarrow> rat option list \<Rightarrow> rat option" where
  "aggregate Mean vs =
     (let xs = present vs in
      if xs = [] then None else Some (sum_list xs / of_nat (length xs)))"
| "aggregate Sum vs = Some (sum_list (present vs))"
| "aggregate Min_agg vs =
     (case present vs of [] \<Rightarrow> None | x # xs \<Rightarrow> Some (fold min xs x))"
| "aggregate Max_agg vs =
     (case present vs of [] \<Rightarrow> None | x # xs \<Rightarrow> Some (fold max xs x))"

fun numeric_cell :: "cell \<Rightarrow> rat option" where
  "numeric_cell (Num q) = Some q"
| "numeric_cell c = None"

fun is_text :: "cell \<Rightarrow> bool" where
  "is_text (Str s) = True"
| "is_text c = False"

definition numeric :: "aggfunc \<Rightarrow> string \<Rightarrow> cell list \<Rightarrow> error + rat option list" where
  "numeric agg c xs =
     (if list_ex is_text xs then
        (if agg = Sum then Inl (Unmodelled c) else Inl (TypeError c))
      else Inr (map numeric_cell xs))"

fun cell_of :: "rat option \<Rightarrow> cell" where
  "cell_of None = NaN"
| "cell_of (Some q) = Num q"

subsection \<open>Pivot tables\<close>

text \<open>
  The result of \<^verbatim>\<open>pivot_table\<close>: row labels, column labels, and one row of values per
  row label with one value per column label (\<open>None\<close> is a missing value).
\<close>

record pivot =
  pindex :: "cell list"
  pcolumns :: "cell list"
  pvalues :: "rat option list list"

definition group_values :: "'k \<Rightarrow> ('k \<times> 'v) list \<Rightarrow> 'v list" where
  "group_values k kvs = map snd (filter (\<lambda>p. fst p = k) kvs)"

definition fillna :: "rat option \<Rightarrow> rat option \<Rightarrow> rat option" where
  "fillna fill v = (case v of None \<Rightarrow> fill | Some x \<Rightarrow> Some x)"

text \<open>
  What \<^verbatim>\<open>DataFrame.pivot_table\<close> does with one index column, one columns column, one
  values column and the default \<^verbatim>\<open>dropna=True\<close>, on the list of ((index key, column
  key), value) of the rows:
  \<^enum> \<^verbatim>\<open>groupby\<close> drops the rows with a missing key and groups the others by key pair;
  \<^enum> each group is aggregated;
  \<^enum> \<^verbatim>\<open>dropna(how="all")\<close> drops the groups whose aggregate is missing;
  \<^enum> \<^verbatim>\<open>unstack\<close> makes the sorted index keys the rows and the sorted column keys the
    columns; a key pair with no group gets a missing value;
  \<^enum> \<^verbatim>\<open>fillna(fill_value)\<close> replaces the missing values when a fill value is given;
  \<^enum> \<^verbatim>\<open>dropna(how="all", axis=1)\<close> drops the columns with no value at all.
\<close>

definition pivot_core ::
  "((cell \<times> cell) \<times> rat option) list \<Rightarrow> aggfunc \<Rightarrow> rat option \<Rightarrow> pivot" where
  "pivot_core kvs agg fill =
     (let grouped = filter (\<lambda>p. fst (fst p) \<noteq> NaN \<and> snd (fst p) \<noteq> NaN) kvs;
          agged = map (\<lambda>k. (k, aggregate agg (group_values k grouped)))
                    (unique (map fst grouped));
          kept = filter (\<lambda>p. snd p \<noteq> None) agged;
          idx = sort_cells (unique (map (\<lambda>p. fst (fst p)) kept));
          cols = sort_cells (unique (map (\<lambda>p. snd (fst p)) kept));
          entry = (\<lambda>i c. fillna fill
                     (case map_of kept (i, c) of None \<Rightarrow> None | Some v \<Rightarrow> v));
          cols' = filter (\<lambda>c. list_ex (\<lambda>i. entry i c \<noteq> None) idx) cols
      in \<lparr>pindex = idx, pcolumns = cols',
          pvalues = map (\<lambda>i. map (entry i) cols') idx\<rparr>)"

text \<open>
  \<^verbatim>\<open>df.pivot_table(index=idx, columns=col, values=val, aggfunc=agg, fill_value=fill)\<close>.
  \<^item> A missing values column raises \<^verbatim>\<open>KeyError\<close> first.
  \<^item> A missing key column raises \<^verbatim>\<open>KeyError\<close> in \<^verbatim>\<open>groupby\<close>, the index key before the
    columns key. (\<^verbatim>\<open>groupby\<close> reads a list of as many keys as the frame has rows, not all
    of them columns, as one array of labels: that corner is not followed.)
  \<^item> When the three columns are present but not three different ones, the frame cut down
    to them has a column twice: with the values column as a key and more than three
    columns in the frame, \<^verbatim>\<open>groupby\<close> raises \<^verbatim>\<open>ValueError\<close> for that key; the other cases
    are not followed.
\<close>

definition pivot_table ::
  "frame \<Rightarrow> string \<Rightarrow> string \<Rightarrow> string \<Rightarrow> aggfunc \<Rightarrow> rat option \<Rightarrow> error + pivot" where
  "pivot_table df idx col val agg fill =
     (if val \<notin> set (columns df) then Inl (KeyError val)
      else if idx \<notin> set (columns df) \<or> col \<notin> set (columns df) then
        (if length (rows df) = 2 \<or> val = idx \<or> val = col then Inl (Unmodelled ''groupby'')
         else if idx \<notin> set (columns df) then Inl (KeyError idx)
         else Inl (KeyError col))
      else if val = idx \<or> val = col \<or> idx = col then
        (if idx \<noteq> col \<and> 3 < length (columns df) then Inl (ValueError val)
         else Inl (Unmodelled ''groupby''))
      else
        (case getcol df val of Inl e \<Rightarrow> Inl e | Inr vcells \<Rightarrow>
         case getcol df idx of Inl e \<Rightarrow> Inl e | Inr icells \<Rightarrow>
         case getcol df col of Inl e \<Rightarrow> Inl e | Inr ccells \<Rightarrow>
         case numeric agg val vcells of Inl e \<Rightarrow> Inl e | Inr vals \<Rightarrow>
           Inr (pivot_core (zip (zip icells ccells) vals) agg fill)))"

text \<open>
  \<^verbatim>\<open>df.groupby(key)[var].agg(["min", "max", "mean"]).reset_index()\<close>: one row per
  key present (missing keys dropped, keys sorted), with the key and the three
  aggregates of the group's values; a group with no value keeps missing aggregates.
  A missing key column raises \<^verbatim>\<open>KeyError\<close> (the key is one label here, not a list of
  labels), then a missing variable column raises \<^verbatim>\<open>KeyError\<close>; the mean of a text column
  raises \<^verbatim>\<open>TypeError\<close>.
\<close>

definition groupby_agg :: "frame \<Rightarrow> string \<Rightarrow> string \<Rightarrow> error + frame" where
  "groupby_agg df key var =
     (case getcol df key of Inl e \<Rightarrow> Inl e | Inr kcells \<Rightarrow>
      case getcol df var of Inl e \<Rightarrow> Inl e | Inr vcells \<Rightarrow>
      case numeric Mean var vcells of Inl e \<Rightarrow> Inl e | Inr vals \<Rightarrow>
        (let grouped = filter (\<lambda>p. fst p \<noteq> NaN) (zip kcells vals)
         in Inr \<lparr>columns = [key, ''min'', ''max'', ''mean''],
                 rows = map (\<lambda>k. [k,
                              cell_of (aggregate Min_agg (group_values k grouped)),
                              cell_of (aggregate Max_agg (group_values k grouped)),
                              cell_of (aggregate Mean (group_values k grouped))])
                          (sort_cells (unique (map fst grouped)))\<rparr>))"

section \<open>Objects, the store and the outside world\<close>

text \<open>
  Python passes frames and plots by reference, and the plotting code updates the axes
  it has created in place. The store holds every object made so far; an object's
  address is its position in the store. A plot keeps what was drawn and its labels.
\<close>

datatype drawing =
    Bars pivot bool "string list"
  | Lines pivot string
  | Line "cell list" "cell list" string string
  | Band "cell list" "cell list" "cell list" string string

record axes =
  drawn :: "drawing list"
  ylabel :: string
  xlabel :: string
  title :: string
  legend :: "string option"

datatype obj = DataFrame frame | PivotTable pivot | Axes axes

text \<open>
  What the \<^verbatim>\<open>@reactive.Calc\<close> computations of a session keep. A reactive computation
  keeps its last result, a value or a raised exception, until an input it has read
  changes; it is a cache of one entry whose key is the values of the inputs read. There is
  one entry for each of the four reactive computations of the server; \<open>None\<close> is a
  computation not run yet.
\<close>

record calcs =
  selected_region_type_calc :: "(string \<times> (error + string)) option"
  selected_dataset_calc :: "(string \<times> (error + nat)) option"
  hydro_data_calc :: "(string \<times> (error + nat)) option"
  hydro_summary_calc :: "((string \<times> string) \<times> (error + nat)) option"

definition no_calcs :: calcs where
  "no_calcs =
     \<lparr>selected_region_type_calc = None, selected_dataset_calc = None,
      hydro_data_calc = None, hydro_summary_calc = None\<rparr>"

text \<open>
  The world of the running program: the store, the entries of the \<^verbatim>\<open>lru_cache\<close> around
  \<^verbatim>\<open>load_lcc_dataset\<close> (most recently used first, dataset name and address of the
  frame), the URLs fetched so far, oldest first, and what the reactive computations of
  the session keep.
\<close>

record world =
  heap :: "obj list"
  cache :: "(string \<times> nat) list"
  fetched :: "string list"
  session :: calcs

definition init_world :: world where
  "init_world = \<lparr>heap = [], cache = [], fetched = [], session = no_calcs\<rparr>"

text \<open>
  What the program cannot decide: whether it runs in the browser, and what a fetch
  returns. The answer to a fetch may depend on the URL and on how many fetches were made
  before it (a server can fail once and answer later). \<open>open_url\<close> is shinylive's
  transport, \<open>read_csv_file\<close> is \<^verbatim>\<open>pd.read_csv\<close> on an open file, \<open>read_csv\<close> is
  \<^verbatim>\<open>pd.read_csv\<close> on a URL.
\<close>

record env =
  in_browser :: bool
  open_url :: "nat \<Rightarrow> string \<Rightarrow> error + string"
  read_csv_file :: "string \<Rightarrow> error + frame"
  read_csv :: "nat \<Rightarrow> string \<Rightarrow> error + frame"

type_synonym 'a comp = "world \<Rightarrow> (error + 'a) \<times> world"

definition ret :: "'a \<Rightarrow> 'a comp" where
  "ret x = (\<lambda>w. (Inr x, w))"

definition raise :: "error \<Rightarrow> 'a comp" where
  "raise e = (\<lambda>w. (Inl e, w))"

text \<open>Sequencing: an exception of the first computation ends the whole.\<close>

definition andthen :: "'a comp \<Rightarrow> ('a \<Rightarrow> 'b comp) \<Rightarrow> 'b comp" where
  "andthen m f =
     (\<lambda>w. case m w of (Inl e, w1) \<Rightarrow> (Inl e, w1) | (Inr x, w1) \<Rightarrow> f x w1)"

definition lift :: "error + 'a \<Rightarrow> 'a comp" where
  "lift r = (\<lambda>w. (r, w))"

text \<open>
  \<^verbatim>\<open>@reactive.Calc\<close> around a function, for one entry of the session: when the entry holds
  a result for the current key, that result is returned (or raised again) and the
  function does not run; otherwise the function runs and its result, value or exception,
  is kept under the current key.
\<close>

definition reactive_calc ::
  "(calcs \<Rightarrow> ('k \<times> (error + 'a)) option) \<Rightarrow>
   ((('k \<times> (error + 'a)) option \<Rightarrow> ('k \<times> (error + 'a)) option) \<Rightarrow> calcs \<Rightarrow> calcs) \<Rightarrow>
   'k \<Rightarrow> 'a comp \<Rightarrow> 'a comp" where
  "reactive_calc entry entry_update key fn =
     (\<lambda>w. let recompute =
                 (case fn w of
                    (r, w1) \<Rightarrow>
                      (r, w1\<lparr>session := entry_update (\<lambda>old. Some (key, r)) (session w1)\<rparr>))
           in case entry (session w) of
                None \<Rightarrow> recompute
              | Some (k, r) \<Rightarrow> if k = key then (r, w) else recompute)"

definition alloc :: "obj \<Rightarrow> nat comp" where
  "alloc ob = (\<lambda>w. (Inr (length (heap w)), w\<lparr>heap := heap w @ [ob]\<rparr>))"

definition obj_at :: "world \<Rightarrow> nat \<Rightarrow> obj option" where
  "obj_at w a = (if a < length (heap w) then Some (heap w ! a) else None)"

definition frame_at :: "world \<Rightarrow> nat \<Rightarrow> frame option" where
  "frame_at w a = (case obj_at w a of Some (DataFrame df) \<Rightarrow> Some df | _ \<Rightarrow> None)"

definition pivot_at :: "world \<Rightarrow> nat \<Rightarrow> pivot option" where
  "pivot_at w a = (case obj_at w a of Some (PivotTable p) \<Rightarrow> Some p | _ \<Rightarrow> None)"

definition axes_at :: "world \<Rightarrow> nat \<Rightarrow> axes option" where
  "axes_at w a = (case obj_at w a of Some (Axes ax) \<Rightarrow> Some ax | _ \<Rightarrow> None)"

text \<open>
  Reading an object through a reference. A reference to an object of another kind makes
  the frame operation raise.
\<close>

definition the_frame :: "nat \<Rightarrow> frame comp" where
  "the_frame a =
     (\<lambda>w. case frame_at w a of
            None \<Rightarrow> (Inl (TypeError ''DataFrame''), w)
          | Some df \<Rightarrow> (Inr df, w))"

definition the_pivot :: "nat \<Rightarrow> pivot comp" where
  "the_pivot a =
     (\<lambda>w. case pivot_at w a of
            None \<Rightarrow> (Inl (TypeError ''DataFrame''), w)
          | Some p \<Rightarrow> (Inr p, w))"

subsection \<open>Frame operations on the store\<close>

text \<open>Each operation reads its frame and makes a new object; none writes to its frame.\<close>

definition df_select_eq :: "nat \<Rightarrow> string \<Rightarrow> cell \<Rightarrow> nat comp" where
  "df_select_eq a c v =
     andthen (the_frame a) (\<lambda>df.
     andthen (lift (select_eq df c v)) (\<lambda>df1.
     alloc (DataFrame df1)))"

definition df_pivot_table ::
  "nat \<Rightarrow> string \<Rightarrow> string \<Rightarrow> string \<Rightarrow> aggfunc \<Rightarrow> rat option \<Rightarrow> nat comp" where
  "df_pivot_table a idx col val agg fill =
     andthen (the_frame a) (\<lambda>df.
     andthen (lift (pivot_table df idx col val agg fill)) (\<lambda>p.
     alloc (PivotTable p)))"

definition df_groupby_agg :: "nat \<Rightarrow> string \<Rightarrow> string \<Rightarrow> nat comp" where
  "df_groupby_agg a key var =
     andthen (the_frame a) (\<lambda>df.
     andthen (lift (groupby_agg df key var)) (\<lambda>s.
     alloc (DataFrame s)))"

definition df_columns :: "nat \<Rightarrow> string list comp" where
  "df_columns a = andthen (the_frame a) (\<lambda>df. ret (columns df))"

definition df_getcol :: "nat \<Rightarrow> string \<Rightarrow> cell list comp" where
  "df_getcol a c = andthen (the_frame a) (\<lambda>df. lift (getcol df c))"

definition df_unique_values :: "nat \<Rightarrow> string \<Rightarrow> cell list comp" where
  "df_unique_values a c = andthen (the_frame a) (\<lambda>df. lift (unique_values df c))"

subsection \<open>Plotting\<close>

text \<open>
  \<^verbatim>\<open>pivot.plot(kind=...)\<close> makes new axes and draws the table on them; a table with no
  column has nothing to draw and raises \<^verbatim>\<open>TypeError\<close>. The setters update the axes
  they are called on, in place.
\<close>

definition empty_axes :: axes where
  "empty_axes = \<lparr>drawn = [], ylabel = [], xlabel = [], title = [], legend = None\<rparr>"

definition pivot_plot :: "nat \<Rightarrow> (pivot \<Rightarrow> drawing) \<Rightarrow> nat comp" where
  "pivot_plot a how =
     andthen (the_pivot a) (\<lambda>p.
     if pcolumns p = [] then raise (TypeError ''no numeric data to plot'')
     else alloc (Axes (empty_axes\<lparr>drawn := [how p]\<rparr>)))"

definition ax_update :: "nat \<Rightarrow> (axes \<Rightarrow> axes) \<Rightarrow> unit comp" where
  "ax_update a f =
     (\<lambda>w. case axes_at w a of
            None \<Rightarrow> (Inl (TypeError ''Axes''), w)
          | Some ax \<Rightarrow> (Inr (), w\<lparr>heap := (heap w)[a := Axes (f ax)]\<rparr>))"

definition set_ylabel :: "nat \<Rightarrow> string \<Rightarrow> unit comp" where
  "set_ylabel a s = ax_update a (\<lambda>ax. ax\<lparr>ylabel := s\<rparr>)"

definition set_xlabel :: "nat \<Rightarrow> string \<Rightarrow> unit comp" where
  "set_xlabel a s = ax_update a (\<lambda>ax. ax\<lparr>xlabel := s\<rparr>)"

definition set_title :: "nat \<Rightarrow> string \<Rightarrow> unit comp" where
  "set_title a s = ax_update a (\<lambda>ax. ax\<lparr>title := s\<rparr>)"

definition set_legend :: "nat \<Rightarrow> string \<Rightarrow> unit comp" where
  "set_legend a s = ax_update a (\<lambda>ax. ax\<lparr>legend := Some s\<rparr>)"

definition ax_draw :: "nat \<Rightarrow> drawing \<Rightarrow> unit comp" where
  "ax_draw a d = ax_update a (\<lambda>ax. ax\<lparr>drawn := drawn ax @ [d]\<rparr>)"

section \<open>Loading datasets\<close>

text \<open>
  \<^verbatim>\<open>read_csv_url(url)\<close>: in the browser the file is opened with \<^verbatim>\<open>open_url\<close> and parsed,
  otherwise \<^verbatim>\<open>pd.read_csv\<close> fetches and parses it. Nothing is caught: an exception of
  either step is the exception of the call. A successful call makes a new frame.
\<close>

definition read_csv_url :: "env \<Rightarrow> string \<Rightarrow> nat comp" where
  "read_csv_url ev url =
     (\<lambda>w. let n = length (fetched w);
               w1 = w\<lparr>fetched := fetched w @ [url]\<rparr>
           in if in_browser ev then
                (case open_url ev n url of
                   Inl e \<Rightarrow> (Inl e, w1)
                 | Inr f \<Rightarrow>
                     (case read_csv_file ev f of
                        Inl e \<Rightarrow> (Inl e, w1)
                      | Inr df \<Rightarrow> alloc (DataFrame df) w1))
              else
                (case read_csv ev n url of
                   Inl e \<Rightarrow> (Inl e, w1)
                 | Inr df \<Rightarrow> alloc (DataFrame df) w1))"

text \<open>
  \<^verbatim>\<open>@lru_cache\<close> with its default size of 128 entries around
  \<^verbatim>\<open>read_csv_url(lcc_data[name])\<close>. A hit returns the cached reference and makes the
  entry the most recent one. A miss runs the body; an exception of the body (an unknown
  name, a failed fetch) leaves the cache as it was; a result is entered as the most
  recent entry, the least recent one leaving a full cache.
\<close>

definition lru_maxsize :: nat where
  "lru_maxsize = 128"

definition load_lcc_dataset :: "env \<Rightarrow> string \<Rightarrow> nat comp" where
  "load_lcc_dataset ev name =
     (\<lambda>w. case map_of (cache w) name of
            Some a \<Rightarrow>
              (Inr a, w\<lparr>cache := (name, a) # filter (\<lambda>p. fst p \<noteq> name) (cache w)\<rparr>)
          | None \<Rightarrow>
              (case andthen (lift (dict_get lcc_data name)) (read_csv_url ev) w of
                 (Inl e, w1) \<Rightarrow> (Inl e, w1)
               | (Inr a, w1) \<Rightarrow>
                   (Inr a, w1\<lparr>cache := take lru_maxsize ((name, a) # cache w1)\<rparr>)))"

section \<open>Start of the program\<close>

text \<open>
  The values the module computes once when it is loaded: the sample frame of the
  Pullayup river and the variable names taken from its header, the three land-cover
  frames and their region names, and the watershed names for the VELMA tab.
\<close>

record app =
  sample_df :: nat
  hydro_variable_options :: "string list"
  df_counties :: nat
  df_wrias :: nat
  df_velma :: nat
  county_list :: "cell list"
  wria_list :: "cell list"
  velma_list :: "cell list"
  velma_watershed_choices :: "cell list"

text \<open>\<^verbatim>\<open>[col for col in sample_df.columns if col not in ("Year", "Day", "Loop", "Step")]\<close>\<close>

definition variable_options :: "string list \<Rightarrow> string list" where
  "variable_options cols =
     filter (\<lambda>col. col \<notin> set [''Year'', ''Day'', ''Loop'', ''Step'']) cols"

definition startup :: "env \<Rightarrow> app comp" where
  "startup ev =
     andthen (lift (dict_get river_files ''Pullayup'')) (\<lambda>url.
     andthen (read_csv_url ev url) (\<lambda>sample.
     andthen (df_columns sample) (\<lambda>cols.
     andthen (load_lcc_dataset ev ''counties'') (\<lambda>counties.
     andthen (load_lcc_dataset ev ''wrias'') (\<lambda>wrias.
     andthen (load_lcc_dataset ev ''velma'') (\<lambda>velma.
     andthen (df_unique_values counties ''Feature_Name'') (\<lambda>cl.
     andthen (df_unique_values wrias ''Feature_Name'') (\<lambda>wl.
     andthen (df_unique_values velma ''Feature_Name'') (\<lambda>vl.
     andthen (lift (dict_get velma_files ''flow2011'')) (\<lambda>vurl.
     andthen (read_csv_url ev vurl) (\<lambda>flow.
     andthen (df_unique_values flow ''Watershed'') (\<lambda>ws.
     ret \<lparr>sample_df = sample,
          hydro_variable_options = variable_options cols,
          df_counties = counties, df_wrias = wrias, df_velma = velma,
          county_list = cl, wria_list = wl, velma_list = vl,
          velma_watershed_choices = ws\<rparr>))))))))))))"

section \<open>The page and the server\<close>

text \<open>The current values of the input widgets.\<close>

record inputs =
  region_type :: string
  region_name :: string
  velma_var :: string
  velma_watershed :: string
  river :: string
  variable :: string

record select_input =
  input_id :: string
  label :: string
  choices :: "cell list"


text \<open>The output slots the page declares (\<^verbatim>\<open>output_ui\<close>, \<^verbatim>\<open>output_plot\<close>), in page order.\<close>

definition app_ui_outputs :: "string list" where
  "app_ui_outputs =
     [''region_selector'', ''plot_lcc'', ''plot_lcc_area'', ''velma_monthly_plot'',
      ''timeseries_plot'']"

definition region_selector :: "app \<Rightarrow> inputs \<Rightarrow> select_input" where
  "region_selector ap inp =
     (if region_type inp = ''County'' then
        \<lparr>input_id = ''region_name'', label = ''Select County'', choices = county_list ap\<rparr>
      else if region_type inp = ''VELMA watershed'' then
        \<lparr>input_id = ''region_name'', label = ''Select VELMA watershed'',
         choices = velma_list ap\<rparr>
      else
        \<lparr>input_id = ''region_name'', label = ''Select WRIA'', choices = wria_list ap\<rparr>)"

definition make_velma_plot :: "nat \<Rightarrow> string \<Rightarrow> string \<Rightarrow> nat comp" where
  "make_velma_plot df watershed var =
     andthen (df_select_eq df ''Watershed'' (Str watershed)) (\<lambda>df1.
     andthen (df_pivot_table df1 ''Month'' ''Year'' var Mean None) (\<lambda>pivot.
     andthen (pivot_plot pivot (\<lambda>p. Lines p ''o'')) (\<lambda>ax.
     andthen (set_ylabel ax var) (\<lambda>u1.
     andthen (set_xlabel ax ''Month'') (\<lambda>u2.
     andthen (set_title ax (var @ '' in '' @ watershed @ '' Watershed'')) (\<lambda>u3.
     andthen (set_legend ax ''Year'') (\<lambda>u4.
     ret ax)))))))"

text \<open>\<^verbatim>\<open>land_cover_colors.get(c, "#333333")\<close>\<close>

fun color_of :: "cell \<Rightarrow> string" where
  "color_of (Str c) =
     (case map_of land_cover_colors c of None \<Rightarrow> ''#333333'' | Some col \<Rightarrow> col)"
| "color_of c = ''#333333''"

text \<open>
  The first two statements of \<^verbatim>\<open>make_lcc_plot\<close>: the rows of the region, pivoted with
  the default aggregation function, the mean.
\<close>

definition make_lcc_plot_pivot :: "nat \<Rightarrow> string \<Rightarrow> nat comp" where
  "make_lcc_plot_pivot df rname =
     andthen (df_select_eq df ''Feature_Name'' (Str rname)) (\<lambda>df1.
     df_pivot_table df1 ''Year'' ''Landcover_Class'' ''diff_dev'' Mean (Some 0))"

definition km2 :: string where
  "km2 = ''km'' @ [CHR 0xC2, CHR 0xB2]"

definition make_lcc_plot :: "nat \<Rightarrow> string \<Rightarrow> nat comp" where
  "make_lcc_plot df rname =
     andthen (make_lcc_plot_pivot df rname) (\<lambda>pivot.
     andthen (pivot_plot pivot (\<lambda>p. Bars p True (map color_of (pcolumns p)))) (\<lambda>ax.
     andthen (set_ylabel ax (''Difference in '' @ km2 @ '' from baseline (2015)'')) (\<lambda>u1.
     andthen (set_xlabel ax ''Year'') (\<lambda>u2.
     andthen (set_title ax (''Landcover Change in '' @ rname)) (\<lambda>u3.
     andthen (set_legend ax ''Landcover Class'') (\<lambda>u4.
     ret ax))))))"

text \<open>The first two statements of \<^verbatim>\<open>make_lcc_area_plot\<close>: the same, summing the areas.\<close>

definition make_lcc_area_plot_pivot :: "nat \<Rightarrow> string \<Rightarrow> nat comp" where
  "make_lcc_area_plot_pivot df rname =
     andthen (df_select_eq df ''Feature_Name'' (Str rname)) (\<lambda>df1.
     df_pivot_table df1 ''Year'' ''Landcover_Class'' ''Developable_Area_km2'' Sum (Some 0))"

definition make_lcc_area_plot :: "nat \<Rightarrow> string \<Rightarrow> nat comp" where
  "make_lcc_area_plot df rname =
     andthen (make_lcc_area_plot_pivot df rname) (\<lambda>pivot.
     andthen (pivot_plot pivot (\<lambda>p. Bars p True (map color_of (pcolumns p)))) (\<lambda>ax.
     andthen (set_ylabel ax (''Developable area in '' @ km2)) (\<lambda>u1.
     andthen (set_xlabel ax ''Year'') (\<lambda>u2.
     andthen (set_title ax (''Landcover Change in '' @ rname)) (\<lambda>u3.
     andthen (set_legend ax ''Landcover Class'') (\<lambda>u4.
     ret ax))))))"

text \<open>
  The four \<^verbatim>\<open>@reactive.Calc\<close> computations. Each is keyed by the inputs it reads, itself
  or through the reactive computations it calls: the region type for
  \<^verbatim>\<open>selected_region_type\<close> and \<^verbatim>\<open>selected_dataset\<close>, the river for \<^verbatim>\<open>hydro_data\<close>, the river
  and the variable for \<^verbatim>\<open>hydro_summary\<close>.
\<close>

definition selected_region_type :: "inputs \<Rightarrow> string comp" where
  "selected_region_type inp =
     reactive_calc selected_region_type_calc selected_region_type_calc_update (region_type inp)
       (ret (region_type inp))"

definition selected_dataset :: "env \<Rightarrow> inputs \<Rightarrow> nat comp" where
  "selected_dataset ev inp =
     reactive_calc selected_dataset_calc selected_dataset_calc_update (region_type inp)
       (andthen (selected_region_type inp) (\<lambda>t1.
        if t1 = ''County'' then load_lcc_dataset ev ''counties''
        else andthen (selected_region_type inp) (\<lambda>t2.
          if t2 = ''VELMA watershed'' then load_lcc_dataset ev ''velma''
          else load_lcc_dataset ev ''wrias'')))"

definition plot_lcc :: "env \<Rightarrow> inputs \<Rightarrow> nat comp" where
  "plot_lcc ev inp =
     andthen (selected_dataset ev inp) (\<lambda>df. make_lcc_plot df (region_name inp))"

definition plot_lcc_area :: "env \<Rightarrow> inputs \<Rightarrow> nat comp" where
  "plot_lcc_area ev inp =
     andthen (selected_dataset ev inp) (\<lambda>df. make_lcc_area_plot df (region_name inp))"

definition hydro_data :: "env \<Rightarrow> inputs \<Rightarrow> nat comp" where
  "hydro_data ev inp =
     reactive_calc hydro_data_calc hydro_data_calc_update (river inp)
       (andthen (lift (dict_get river_files (river inp))) (\<lambda>file_path.
        read_csv_url ev file_path))"

definition hydro_summary :: "env \<Rightarrow> inputs \<Rightarrow> nat comp" where
  "hydro_summary ev inp =
     reactive_calc hydro_summary_calc hydro_summary_calc_update (river inp, variable inp)
       (andthen (hydro_data ev inp) (\<lambda>df.
        df_groupby_agg df ''Year'' (variable inp)))"

definition timeseries_plot :: "env \<Rightarrow> inputs \<Rightarrow> nat comp" where
  "timeseries_plot ev inp =
     andthen (hydro_summary ev inp) (\<lambda>df.
     andthen (alloc (Axes empty_axes)) (\<lambda>ax.
     andthen (df_getcol df ''Year'') (\<lambda>x1.
     andthen (df_getcol df ''mean'') (\<lambda>y1.
     andthen (ax_draw ax (Line x1 y1 ''Mean'' ''blue'')) (\<lambda>u1.
     andthen (df_getcol df ''Year'') (\<lambda>x2.
     andthen (df_getcol df ''min'') (\<lambda>lo.
     andthen (df_getcol df ''max'') (\<lambda>hi.
     andthen (ax_draw ax (Band x2 lo hi ''Min-Max Range'' ''blue'')) (\<lambda>u2.
     andthen (set_ylabel ax (variable inp)) (\<lambda>u3.
     andthen (set_xlabel ax ''Year'') (\<lambda>u4.
     andthen (set_title ax (variable inp @ '' in '' @ river inp @ '' River'')) (\<lambda>u5.
     andthen (set_legend ax []) (\<lambda>u6.
     ret ax)))))))))))))"

text \<open>
  What the server function registers: the functions under \<^verbatim>\<open>@render.ui\<close> and
  \<^verbatim>\<open>@render.plot\<close>, by name, in source order. Each is given as the function it wraps;
  when the framework runs it is the framework's business.
\<close>

datatype rendered = UI select_input | Plot nat

definition server :: "app \<Rightarrow> env \<Rightarrow> inputs \<Rightarrow> (string \<times> rendered comp) list" where
  "server ap ev inp =
     [(''region_selector'', ret (UI (region_selector ap inp))),
      (''plot_lcc'', andthen (plot_lcc ev inp) (\<lambda>ax. ret (Plot ax))),
      (''plot_lcc_area'', andthen (plot_lcc_area ev inp) (\<lambda>ax. ret (Plot ax))),
      (''timeseries_plot'', andthen (timeseries_plot ev inp) (\<lambda>ax. ret (Plot ax)))]"

text \<open>
  The functions defined inside \<^verbatim>\<open>server\<close>, in source order, each with its decorator
  (if any) and the functions of the program its body calls.
\<close>

datatype decorator = Render_ui | Render_plot | Reactive_calc | Plain

definition server_functions :: "(string \<times> decorator \<times> string list) list" where
  "server_functions =
     [(''region_selector'', Render_ui, []),
      (''make_velma_plot'', Plain, []),
      (''make_lcc_plot'', Plain, []),
      (''make_lcc_area_plot'', Plain, []),
      (''selected_region_type'', Reactive_calc, []),
      (''selected_dataset'', Reactive_calc, [''selected_region_type'', ''load_lcc_dataset'']),
      (''plot_lcc'', Render_plot, [''make_lcc_plot'', ''selected_dataset'']),
      (''plot_lcc_area'', Render_plot, [''make_lcc_area_plot'', ''selected_dataset'']),
      (''hydro_data'', Reactive_calc, [''read_csv_url'']),
      (''hydro_summary'', Reactive_calc, [''hydro_data'']),
      (''timeseries_plot'', Render_plot, [''hydro_summary''])]"

section \<open>Notions for stating the properties\<close>

text \<open>
  What holds of the cache in every world the program reaches: a dataset name is cached at
  most once, only names of the registry are cached (the body raises \<^verbatim>\<open>KeyError\<close> for any
  other name), and every cached reference is a frame of the store.
\<close>

definition cache_ok :: "world \<Rightarrow> bool" where
  "cache_ok w =
     (distinct (map fst (cache w))
      \<and> set (map fst (cache w)) \<subseteq> set (map fst lcc_data)
      \<and> list_all (\<lambda>p. frame_at w (snd p) \<noteq> None) (cache w))"

text \<open>Any number of calls of the loader, whatever they return.\<close>

fun run_loads :: "env \<Rightarrow> string list \<Rightarrow> world \<Rightarrow> world" where
  "run_loads ev [] w = w"
| "run_loads ev (n # ns) w = run_loads ev ns (snd (load_lcc_dataset ev n w))"

text \<open>An entry of the session holds no result for a key.\<close>

definition stale :: "('k \<times> 'r) option \<Rightarrow> 'k \<Rightarrow> bool" where
  "stale entry key = (case entry of None \<Rightarrow> True | Some (k, r) \<Rightarrow> k \<noteq> key)"

text \<open>
  The world after \<^verbatim>\<open>selected_dataset\<close> has fetched a URL in vain and raised: one more
  fetch, and the session keeps the region type and the exception.
\<close>

definition failed_session :: "world \<Rightarrow> string \<Rightarrow> inputs \<Rightarrow> error \<Rightarrow> world" where
  "failed_session w url inp e =
     w\<lparr>fetched := fetched w @ [url],
       session := (session w)\<lparr>
         selected_region_type_calc := Some (region_type inp, Inr (region_type inp)),
         selected_dataset_calc := Some (region_type inp, Inl e)\<rparr>\<rparr>"

text \<open>What the transport and the parser answer to the fetch number \<open>n\<close> of a URL.\<close>

definition fetch_answer :: "env \<Rightarrow> nat \<Rightarrow> string \<Rightarrow> error + frame" where
  "fetch_answer ev n url =
     (if in_browser ev then
        (case open_url ev n url of Inl e \<Rightarrow> Inl e | Inr f \<Rightarrow> read_csv_file ev f)
      else read_csv ev n url)"

text \<open>The dataset name \<^verbatim>\<open>selected_dataset\<close> asks the loader for.\<close>

definition dataset_name :: "string \<Rightarrow> string" where
  "dataset_name rtype =
     (if rtype = ''County'' then ''counties''
      else if rtype = ''VELMA watershed'' then ''velma'' else ''wrias'')"

definition counties_url :: string where
  "counties_url = ''https://uw-psi.github.io/shinyapp/data/diffed_counties.csv''"

text \<open>
  No frame or pivot table of the first world has changed in the second: each is still at
  its address, with the same content. Axes may have been updated.
\<close>

fun kept_obj :: "obj \<Rightarrow> obj option \<Rightarrow> bool" where
  "kept_obj (Axes ax) r = True"
| "kept_obj ob r = (r = Some ob)"

definition frames_kept :: "world \<Rightarrow> world \<Rightarrow> bool" where
  "frames_kept w w' =
     list_all (\<lambda>a. kept_obj (heap w ! a) (obj_at w' a)) [0..<length (heap w)]"

text \<open>The object a computation returns, or its exception.\<close>

fun result_obj :: "(error + nat) \<times> world \<Rightarrow> error + obj option" where
  "result_obj (Inl e, w) = Inl e"
| "result_obj (Inr a, w) = Inr (obj_at w a)"

text \<open>
  The pivot of the two land-cover plots as a function of the frame and the selected
  region: the rows of the region, pivoted by year and land-cover class.
\<close>

definition region_pivot :: "frame \<Rightarrow> string \<Rightarrow> string \<Rightarrow> aggfunc \<Rightarrow> error + pivot" where
  "region_pivot df rname val agg =
     (case select_eq df ''Feature_Name'' (Str rname) of
        Inl e \<Rightarrow> Inl e
      | Inr d \<Rightarrow> pivot_table d ''Year'' ''Landcover_Class'' val agg (Some 0))"

text \<open>The steps of \<open>pivot_core\<close>, named: the rows grouped, and the groups kept.\<close>

definition grouped_of :: "((cell \<times> cell) \<times> rat option) list \<Rightarrow> ((cell \<times> cell) \<times> rat option) list" where
  "grouped_of kvs = filter (\<lambda>p. fst (fst p) \<noteq> NaN \<and> snd (fst p) \<noteq> NaN) kvs"

definition kept_of ::
  "((cell \<times> cell) \<times> rat option) list \<Rightarrow> aggfunc \<Rightarrow> ((cell \<times> cell) \<times> rat option) list" where
  "kept_of kvs agg =
     filter (\<lambda>p. snd p \<noteq> None)
       (map (\<lambda>k. (k, aggregate agg (group_values k (grouped_of kvs))))
          (unique (map fst (grouped_of kvs))))"

text \<open>The cell of a frame's row in a named column.\<close>

definition field :: "frame \<Rightarrow> string \<Rightarrow> cell list \<Rightarrow> cell" where
  "field df c r = cell_at (position c (columns df)) r"

text \<open>
  The rows of a frame that have a value in each of three columns, and the values a frame
  holds in one column for a given pair of keys (missing values left out).
\<close>

definition complete_rows :: "frame \<Rightarrow> string \<Rightarrow> string \<Rightarrow> string \<Rightarrow> cell list list" where
  "complete_rows d idx col val =
     filter (\<lambda>r. field d idx r \<noteq> NaN \<and> field d col r \<noteq> NaN \<and> field d val r \<noteq> NaN) (rows d)"

definition cell_values :: "frame \<Rightarrow> string \<Rightarrow> string \<Rightarrow> string \<Rightarrow> cell \<Rightarrow> cell \<Rightarrow> rat list" where
  "cell_values d idx col val i c =
     present (map (\<lambda>r. numeric_cell (field d val r))
       (filter (\<lambda>r. field d idx r = i \<and> field d col r = c) (rows d)))"

text \<open>The value of a pivot table at a row label and a column label.\<close>

definition pivot_cell :: "pivot \<Rightarrow> cell \<Rightarrow> cell \<Rightarrow> rat option" where
  "pivot_cell p i c =
     (if i \<in> set (pindex p) \<and> c \<in> set (pcolumns p)
      then pvalues p ! position i (pindex p) ! position c (pcolumns p)
      else None)"

definition triples ::
  "frame \<Rightarrow> string \<Rightarrow> string \<Rightarrow> string \<Rightarrow> ((cell \<times> cell) \<times> rat option) list" where
  "triples d idx col val =
     map (\<lambda>r. ((field d idx r, field d col r), numeric_cell (field d val r))) (rows d)"

text \<open>
  The shape the spec's example scenario asks of the pivot: one row per distinct year of
  the region's rows, one column per distinct land-cover class of the region's rows.
\<close>

definition claimed_shape :: "frame \<Rightarrow> pivot \<Rightarrow> bool" where
  "claimed_shape d p =
     (distinct (pindex p) \<and> set (pindex p) = set (map (field d ''Year'') (rows d))
      \<and> distinct (pcolumns p)
      \<and> set (pcolumns p) = set (map (field d ''Landcover_Class'') (rows d)))"

text \<open>
  The total of a stacked bar: the sum of the pivot's row of a year, when the pivot has that
  row. The rows of a region and year in a frame, and the sum of a value column over rows
  (missing values skipped, as \<^verbatim>\<open>sum\<close> does).
\<close>

definition row_total :: "pivot \<Rightarrow> cell \<Rightarrow> rat option" where
  "row_total p i =
     (if i \<in> set (pindex p)
      then Some (sum_list (present (pvalues p ! position i (pindex p))))
      else None)"

definition region_year_rows :: "frame \<Rightarrow> string \<Rightarrow> cell \<Rightarrow> cell list list" where
  "region_year_rows df rname i =
     filter (\<lambda>r. field df ''Feature_Name'' r = Str rname \<and> field df ''Year'' r = i) (rows df)"

definition value_total :: "frame \<Rightarrow> string \<Rightarrow> cell list list \<Rightarrow> rat" where
  "value_total df val rs = sum_list (present (map (\<lambda>r. numeric_cell (field df val r)) rs))"

text \<open>The URLs the start of the program fetches besides the land-cover files, and a river file.\<close>

definition pullayup_url :: string where
  "pullayup_url = ''https://uw-psi.github.io/shinyapp/data/Pullayup.csv''"

definition flow_url :: string where
  "flow_url = ''https://uw-psi.github.io/shinyapp/data/velma_monthly_flow_stats_2011.csv''"




section \<open>Example inputs\<close>

text \<open>A small land-cover frame and worlds to run the program on.\<close>

definition demo_frame :: frame where
  "demo_frame =
     \<lparr>columns = [''Feature_Name'', ''Year'', ''Landcover_Class'', ''diff_dev'',
                 ''Developable_Area_km2''],
      rows = [[Str ''King'', Num 2015, Str ''Forest'', Num 0, Num 10],
              [Str ''King'', Num 2020, Str ''Forest'', Num (-2), Num 8],
              [Str ''King'', Num 2020, Str ''Agriculture'', Num 1, Num 5],
              [Str ''Pierce'', Num 2020, Str ''Forest'', Num (-1), Num 7]]\<rparr>"

text \<open>A network that fails on the first fetch and answers afterwards.\<close>

definition flaky_env :: env where
  "flaky_env =
     \<lparr>in_browser = False,
      open_url = (\<lambda>n url. Inl (FetchError url)),
      read_csv_file = (\<lambda>f. Inl (ParseError f)),
      read_csv = (\<lambda>n url. if n = 0 then Inl (FetchError url) else Inr demo_frame)\<rparr>"


definition demo_inputs :: inputs where
  "demo_inputs =
     \<lparr>region_type = ''County'', region_name = ''King'', velma_var = ''flow2011'',
      velma_watershed = ''Mashel'', river = ''Green'', variable = ''Q''\<rparr>"

definition demo_loaded :: world where
  "demo_loaded =
     \<lparr>heap = [DataFrame demo_frame], cache = [(''counties'', 0)], fetched = [counties_url], session = no_calcs\<rparr>"

text \<open>A site that answers every fetch: land-cover, VELMA and river files.\<close>

definition demo_velma :: frame where
  "demo_velma =
     \<lparr>columns = [''Watershed'', ''Year'', ''Month'', ''Flow''],
      rows = [[Str ''Mashel'', Num 2011, Num 1, Num 4],
              [Str ''Mashel'', Num 2011, Num 2, Num 6],
              [Str ''Ohop'', Num 2011, Num 1, Num 3]]\<rparr>"

definition demo_river :: frame where
  "demo_river =
     \<lparr>columns = [''Year'', ''Day'', ''Loop'', ''Step'', ''Q'', ''Temp''],
      rows = [[Num 2011, Num 1, Num 1, Num 1, Num 5, Num 10],
              [Num 2011, Num 2, Num 1, Num 2, Num 7, NaN],
              [Num 2012, Num 1, Num 1, Num 3, Num 3, Num 12]]\<rparr>"

definition demo_green :: frame where
  "demo_green =
     \<lparr>columns = [''Year'', ''Day'', ''Q''],
      rows = [[Num 2012, Num 1, Num 4],
              [Num 2011, Num 1, Num 6],
              [Num 2011, Num 2, Num 7],
              [Num 2011, Num 3, Num 2]]\<rparr>"

definition demo_wrias :: frame where
  "demo_wrias =
     \<lparr>columns = [''Feature_Name'', ''Year'', ''Landcover_Class'', ''diff_dev'',
                 ''Developable_Area_km2''],
      rows = [[Str ''Puyallup'', Num 2015, Str ''Forest'', Num 0, Num 10],
              [Str ''Nisqually'', Num 2015, Str ''Forest'', Num 0, Num 6],
              [Str ''Puyallup'', Num 2020, Str ''Forest'', Num (- 2), Num 8],
              [Str ''Nisqually'', Num 2020, Str ''Forest'', Num 1, Num 7],
              [Str ''Puyallup'', Num 2020, Str ''Agriculture'', Num 1, Num 5]]\<rparr>"

definition demo_env :: env where
  "demo_env =
     \<lparr>in_browser = False,
      open_url = (\<lambda>n url. Inl (FetchError url)),
      read_csv_file = (\<lambda>f. Inl (ParseError f)),
      read_csv = (\<lambda>n url.
         if url = ''https://uw-psi.github.io/shinyapp/data/diffed_wrias.csv'' then Inr demo_wrias
         else if url \<in> set (map snd lcc_data) then Inr demo_frame
         else if url \<in> set (map snd velma_files) then Inr demo_velma
         else if url = ''https://uw-psi.github.io/shinyapp/data/Green.csv'' then Inr demo_green
         else Inr demo_river)\<rparr>"

definition demo_two :: world where
  "demo_two =
     \<lparr>heap = [DataFrame demo_river, DataFrame demo_frame], cache = [], fetched = [], session = no_calcs\<rparr>"

text \<open>A land-cover frame whose baseline year has no difference value.\<close>

definition cx_frame :: frame where
  "cx_frame =
     \<lparr>columns = [''Feature_Name'', ''Year'', ''Landcover_Class'', ''diff_dev'',
                 ''Developable_Area_km2''],
      rows = [[Str ''King'', Num 2015, Str ''Forest'', NaN, Num 10],
              [Str ''King'', Num 2020, Str ''Forest'', Num 1, Num 8],
              [Str ''Pierce'', Num 2020, Str ''Forest'', Num (- 1), Num 7]]\<rparr>"

definition cx_king :: frame where
  "cx_king =
     \<lparr>columns = [''Feature_Name'', ''Year'', ''Landcover_Class'', ''diff_dev'',
                 ''Developable_Area_km2''],
      rows = [[Str ''King'', Num 2015, Str ''Forest'', NaN, Num 10],
              [Str ''King'', Num 2020, Str ''Forest'', Num 1, Num 8]]\<rparr>"

definition cx_world :: world where
  "cx_world = \<lparr>heap = [DataFrame cx_frame], cache = [(''counties'', 0)], fetched = [counties_url], session = no_calcs\<rparr>"

text \<open>A land-cover frame with two rows for one region, year and class.\<close>

definition dup_frame :: frame where
  "dup_frame =
     \<lparr>columns = [''Feature_Name'', ''Year'', ''Landcover_Class'', ''diff_dev'',
                 ''Developable_Area_km2''],
      rows = [[Str ''King'', Num 2020, Str ''Forest'', Num 1, Num 8],
              [Str ''King'', Num 2020, Str ''Forest'', Num 3, Num 4]]\<rparr>"

definition dup_world :: world where
  "dup_world = \<lparr>heap = [DataFrame dup_frame], cache = [(''counties'', 0)], fetched = [counties_url], session = no_calcs\<rparr>"

text \<open>What the start of the program computes on the demo site.\<close>

definition demo_app :: app where
  "demo_app =
     \<lparr>sample_df = 0, hydro_variable_options = [''Q'', ''Temp''],
      df_counties = 1, df_wrias = 2, df_velma = 3,
      county_list = [Str ''King'', Str ''Pierce''],
      wria_list = [Str ''Puyallup'', Str ''Nisqually''],
      velma_list = [Str ''King'', Str ''Pierce''],
      velma_watershed_choices = [Str ''Mashel'', Str ''Ohop'']\<rparr>"

section \<open>The VELMA variable choices and the VELMA registry\<close>

text \<open>
  Claim C4. The radio buttons for \<^verbatim>\<open>velma_var\<close> offer \<^verbatim>\<open>temp2011\<close> and \<^verbatim>\<open>totN2011\<close>;
  neither is a key of \<^verbatim>\<open>velma_files\<close>, so \<^verbatim>\<open>velma_files[velma_var]\<close> has no value for
  them: the lookup raises \<^verbatim>\<open>KeyError\<close>.
\<close>

theorem velma_var_choices_not_in_registry:
  "''temp2011'' \<in> fst ` set velma_var_choices
   \<and> ''totN2011'' \<in> fst ` set velma_var_choices
   \<and> ''temp2011'' \<notin> fst ` set velma_files
   \<and> ''totN2011'' \<notin> fst ` set velma_files
   \<and> map_of velma_files ''temp2011'' = None
   \<and> map_of velma_files ''totN2011'' = None
   \<and> dict_get velma_files ''temp2011'' = Inl (KeyError ''temp2011'')
   \<and> dict_get velma_files ''totN2011'' = Inl (KeyError ''totN2011'')"
  by (simp add: velma_var_choices_def velma_files_def dict_get_def)

section \<open>The memoizing loader\<close>

lemma frame_at_append:
  "heap w' = heap w @ ys \<Longrightarrow> frame_at w a = Some df \<Longrightarrow> frame_at w' a = Some df"
  by (auto simp: frame_at_def obj_at_def nth_append split: if_splits)

lemma frame_at_cache_update [simp]: "frame_at (w\<lparr>cache := c\<rparr>) a = frame_at w a"
  by (simp add: frame_at_def obj_at_def)

lemma frame_at_fetched_update [simp]: "frame_at (w\<lparr>fetched := c\<rparr>) a = frame_at w a"
  by (simp add: frame_at_def obj_at_def)

lemma frame_at_session_update [simp]: "frame_at (w\<lparr>session := c\<rparr>) a = frame_at w a"
  by (simp add: frame_at_def obj_at_def)

lemma obj_at_session_update [simp]: "obj_at (w\<lparr>session := c\<rparr>) a = obj_at w a"
  by (simp add: obj_at_def)

lemma pivot_at_session_update [simp]: "pivot_at (w\<lparr>session := c\<rparr>) a = pivot_at w a"
  by (simp add: pivot_at_def)

lemma axes_at_session_update [simp]: "axes_at (w\<lparr>session := c\<rparr>) a = axes_at w a"
  by (simp add: axes_at_def)

lemma read_csv_url_success:
  "read_csv_url ev url w = (Inr a, w1) \<Longrightarrow>
   \<exists>df. a = length (heap w) \<and> heap w1 = heap w @ [DataFrame df]
        \<and> cache w1 = cache w \<and> fetched w1 = fetched w @ [url]"
  by (auto simp add: read_csv_url_def alloc_def Let_def split: sum.splits if_splits)

lemma read_csv_url_error:
  "read_csv_url ev url w = (Inl e, w1) \<Longrightarrow> w1 = w\<lparr>fetched := fetched w @ [url]\<rparr>"
  by (auto simp add: read_csv_url_def alloc_def Let_def split: sum.splits if_splits)

lemma read_csv_url_cache: "cache (snd (read_csv_url ev url w)) = cache w"
  by (simp add: read_csv_url_def alloc_def Let_def split: sum.splits)


lemma read_csv_url_heap_error:
  "read_csv_url ev url w = (Inl e, w1) \<Longrightarrow> heap w1 = heap w"
  by (auto simp add: read_csv_url_def alloc_def Let_def split: sum.splits if_splits)

lemma read_csv_url_heap:
  "\<exists>ys. heap (snd (read_csv_url ev url w)) = heap w @ ys"
  by (simp add: read_csv_url_def alloc_def Let_def split: sum.splits)

lemma cache_ok_length: "cache_ok w \<Longrightarrow> length (cache w) \<le> 3"
proof -
  assume ok: "cache_ok w"
  have "length (cache w) = card (set (map fst (cache w)))"
    using ok by (metis cache_ok_def distinct_card length_map)
  also have "\<dots> \<le> card (set (map fst lcc_data))"
    using ok by (intro card_mono) (auto simp: cache_ok_def)
  also have "\<dots> \<le> 3"
    by (simp add: lcc_data_def)
  finally show ?thesis .
qed

lemma load_hit:
  "map_of (cache w) name = Some a \<Longrightarrow>
   load_lcc_dataset ev name w =
     (Inr a, w\<lparr>cache := (name, a) # filter (\<lambda>p. fst p \<noteq> name) (cache w)\<rparr>)"
  by (simp add: load_lcc_dataset_def)

lemma load_miss:
  "map_of (cache w) name = None \<Longrightarrow>
   load_lcc_dataset ev name w =
     (case dict_get lcc_data name of
        Inl e \<Rightarrow> (Inl e, w)
      | Inr url \<Rightarrow>
          (case read_csv_url ev url w of
             (Inl e, w1) \<Rightarrow> (Inl e, w1)
           | (Inr a, w1) \<Rightarrow> (Inr a, w1\<lparr>cache := take lru_maxsize ((name, a) # cache w1)\<rparr>)))"
  by (simp add: load_lcc_dataset_def andthen_def lift_def split: sum.splits prod.splits)

lemma map_of_filter_other:
  "k \<noteq> n \<Longrightarrow> map_of (filter (\<lambda>p. fst p \<noteq> n) xs) k = map_of xs k"
  by (induction xs) auto

lemma list_all_frame_at_mono:
  assumes "list_all (\<lambda>p. frame_at w (snd p) \<noteq> None) xs" and "heap w' = heap w @ ys"
  shows "list_all (\<lambda>p. frame_at w' (snd p) \<noteq> None) xs"
  using assms by (auto simp: list_all_iff dest: frame_at_append)

lemma load_cache_ok:
  assumes "cache_ok w"
  shows "cache_ok (snd (load_lcc_dataset ev n w))"
proof (cases "map_of (cache w) n")
  case (Some a)
  then have "n \<in> set (map fst (cache w))"
    by (metis map_of_eq_None_iff option.distinct(1) set_map)
  moreover have "frame_at w a \<noteq> None"
    using assms Some by (auto simp: cache_ok_def list_all_iff dest: map_of_SomeD)
  ultimately show ?thesis
    using assms Some by (auto simp: load_hit cache_ok_def distinct_map_filter list_all_iff)
next
  case None
  then have notin: "n \<notin> set (map fst (cache w))"
    by (simp add: map_of_eq_None_iff)
  show ?thesis
  proof (cases "dict_get lcc_data n")
    case (Inl e)
    then show ?thesis using assms None by (simp add: load_miss)
  next
    case (Inr url)
    then have reg: "n \<in> set (map fst lcc_data)"
      by (auto simp: dict_get_def split: option.splits dest: map_of_SomeD intro: rev_image_eqI)
    obtain r w1 where rc: "read_csv_url ev url w = (r, w1)" by (cases "read_csv_url ev url w")
    have len: "length (cache w) \<le> 3" using assms by (rule cache_ok_length)
    show ?thesis
    proof (cases r)
      case (Inl e)
      then have "w1 = w\<lparr>fetched := fetched w @ [url]\<rparr>"
        using rc read_csv_url_error by blast
      then show ?thesis
        using assms None Inr rc Inl by (simp add: load_miss cache_ok_def)
    next
      case r: (Inr a)
      obtain df where s: "a = length (heap w)" "heap w1 = heap w @ [DataFrame df]"
          "cache w1 = cache w"
        using rc r read_csv_url_success by blast
      have t: "take lru_maxsize ((n, a) # cache w) = (n, a) # cache w"
        using len by (simp add: lru_maxsize_def)
      have "frame_at w1 a = Some df"
        using s by (simp add: frame_at_def obj_at_def)
      moreover have "list_all (\<lambda>p. frame_at w1 (snd p) \<noteq> None) (cache w)"
      proof (rule list_all_frame_at_mono)
        show "list_all (\<lambda>p. frame_at w (snd p) \<noteq> None) (cache w)"
          using assms by (simp add: cache_ok_def)
        show "heap w1 = heap w @ [DataFrame df]" by (rule s(2))
      qed
      ultimately show ?thesis
        using assms None Inr rc s(3) r notin reg t by (simp add: load_miss cache_ok_def)
    qed
  qed
qed

lemma load_keeps_entry:
  assumes "cache_ok w" and "map_of (cache w) name = Some a"
  shows "map_of (cache (snd (load_lcc_dataset ev n w))) name = Some a"
proof (cases "map_of (cache w) n")
  case (Some b)
  then show ?thesis
    using assms by (cases "n = name") (auto simp: load_hit map_of_filter_other)
next
  case None
  then have ne: "n \<noteq> name" using assms by auto
  show ?thesis
  proof (cases "dict_get lcc_data n")
    case (Inl e)
    then show ?thesis using assms None by (simp add: load_miss)
  next
    case (Inr url)
    obtain r w1 where rc: "read_csv_url ev url w = (r, w1)" by (cases "read_csv_url ev url w")
    have c1: "cache w1 = cache w" using read_csv_url_cache [of ev url w] rc by simp
    have len: "length (cache w) \<le> 3" using assms(1) by (rule cache_ok_length)
    show ?thesis
    proof (cases r)
      case (Inl e)
      then show ?thesis using assms None Inr rc c1 by (simp add: load_miss)
    next
      case r: (Inr b)
      have "take lru_maxsize ((n, b) # cache w) = (n, b) # cache w"
        using len by (simp add: lru_maxsize_def)
      then show ?thesis
        using assms None Inr rc c1 r ne by (simp add: load_miss)
    qed
  qed
qed

lemma load_heap: "\<exists>ys. heap (snd (load_lcc_dataset ev n w)) = heap w @ ys"
proof (cases "map_of (cache w) n")
  case (Some a)
  then show ?thesis by (simp add: load_hit)
next
  case None
  show ?thesis
  proof (cases "dict_get lcc_data n")
    case (Inl e)
    then show ?thesis using None by (simp add: load_miss)
  next
    case (Inr url)
    obtain r w1 where rc: "read_csv_url ev url w = (r, w1)" by (cases "read_csv_url ev url w")
    then show ?thesis
      using read_csv_url_heap [of ev url w] None Inr by (cases r) (auto simp: load_miss)
  qed
qed

lemma load_result_cached:
  assumes "load_lcc_dataset ev name w = (Inr a, w1)"
  shows "map_of (cache w1) name = Some a"
proof (cases "map_of (cache w) name")
  case (Some b)
  then show ?thesis using assms by (auto simp: load_hit)
next
  case None
  then show ?thesis
    using assms
    by (auto simp: load_miss lru_maxsize_def split: sum.splits prod.splits)
qed

lemma run_loads_cache_ok: "cache_ok w \<Longrightarrow> cache_ok (run_loads ev ns w)"
  by (induction ns arbitrary: w) (simp_all add: load_cache_ok)

lemma run_loads_keeps_entry:
  "cache_ok w \<Longrightarrow> map_of (cache w) name = Some a \<Longrightarrow>
   map_of (cache (run_loads ev ns w)) name = Some a"
  by (induction ns arbitrary: w) (simp_all add: load_cache_ok load_keeps_entry)

lemma run_loads_heap: "\<exists>ys. heap (run_loads ev ns w) = heap w @ ys"
proof (induction ns arbitrary: w)
  case Nil
  then show ?case by simp
next
  case (Cons n ns)
  obtain ys where "heap (snd (load_lcc_dataset ev n w)) = heap w @ ys"
    using load_heap by blast
  moreover obtain zs where
    "heap (run_loads ev ns (snd (load_lcc_dataset ev n w))) = heap (snd (load_lcc_dataset ev n w)) @ zs"
    using Cons.IH by blast
  ultimately show ?case by simp
qed

lemma frame_at_prefix:
  "\<exists>ys. heap w' = heap w @ ys \<Longrightarrow> frame_at w a = Some df \<Longrightarrow> frame_at w' a = Some df"
  using frame_at_append by blast









lemma read_csv_url_answer:
  "read_csv_url ev url w =
     (case fetch_answer ev (length (fetched w)) url of
        Inl e \<Rightarrow> (Inl e, w\<lparr>fetched := fetched w @ [url]\<rparr>)
      | Inr df \<Rightarrow> (Inr (length (heap w)),
                    w\<lparr>fetched := fetched w @ [url], heap := heap w @ [DataFrame df]\<rparr>))"
  by (simp add: read_csv_url_def fetch_answer_def alloc_def Let_def split: sum.splits)

lemma read_csv_url_session_update:
  "read_csv_url ev url (w\<lparr>session := c\<rparr>) =
     (case read_csv_url ev url w of (r, w1) \<Rightarrow> (r, w1\<lparr>session := c\<rparr>))"
  by (simp add: read_csv_url_def alloc_def Let_def split: sum.splits)

lemma read_csv_url_session: "session (snd (read_csv_url ev url w)) = session w"
  by (simp add: read_csv_url_def alloc_def Let_def split: sum.splits)

lemma load_session_update:
  "load_lcc_dataset ev n (w\<lparr>session := c\<rparr>) =
     (case load_lcc_dataset ev n w of (r, w1) \<Rightarrow> (r, w1\<lparr>session := c\<rparr>))"
  by (simp add: load_lcc_dataset_def andthen_def lift_def read_csv_url_session_update
      split: option.splits sum.splits prod.splits)

lemma load_session: "session (snd (load_lcc_dataset ev n w)) = session w"
  by (simp add: load_lcc_dataset_def andthen_def lift_def read_csv_url_session [of ev _ w]
      split: option.splits sum.splits prod.splits)
    (metis read_csv_url_session snd_conv)

lemma run_loads_session: "session (run_loads ev ns w) = session w"
  by (induction ns arbitrary: w) (simp_all add: load_session)

lemma reactive_calc_hit:
  "entry (session w) = Some (key, r) \<Longrightarrow> reactive_calc entry upd key fn w = (r, w)"
  by (simp add: reactive_calc_def)

lemma reactive_calc_run:
  "stale (entry (session w)) key \<Longrightarrow>
   reactive_calc entry upd key fn w =
     (case fn w of (r, w1) \<Rightarrow> (r, w1\<lparr>session := upd (\<lambda>old. Some (key, r)) (session w1)\<rparr>))"
  by (auto simp: reactive_calc_def stale_def Let_def split: option.splits)

lemma reactive_calc_again:
  assumes "\<And>f c. entry (upd f c) = f (entry c)"
  shows "reactive_calc entry upd key fn (snd (reactive_calc entry upd key fn w)) =
     reactive_calc entry upd key fn w"
proof (cases "stale (entry (session w)) key")
  case True
  obtain r w1 where f: "fn w = (r, w1)" by (cases "fn w")
  have "reactive_calc entry upd key fn w =
      (r, w1\<lparr>session := upd (\<lambda>old. Some (key, r)) (session w1)\<rparr>)"
    using True f by (simp add: reactive_calc_run)
  moreover have "reactive_calc entry upd key fn
        (w1\<lparr>session := upd (\<lambda>old. Some (key, r)) (session w1)\<rparr>) =
      (r, w1\<lparr>session := upd (\<lambda>old. Some (key, r)) (session w1)\<rparr>)"
    by (rule reactive_calc_hit) (simp add: assms)
  ultimately show ?thesis by simp
next
  case False
  then obtain r where "entry (session w) = Some (key, r)"
    by (auto simp: stale_def split: option.splits)
  then show ?thesis by (simp add: reactive_calc_hit)
qed

lemma selected_region_type_run:
  "selected_region_type_calc (session w) = None \<Longrightarrow>
   selected_region_type inp w =
     (Inr (region_type inp),
      w\<lparr>session := (session w)\<lparr>selected_region_type_calc :=
           Some (region_type inp, Inr (region_type inp))\<rparr>\<rparr>)"
  by (simp add: selected_region_type_def reactive_calc_run stale_def ret_def)

lemma selected_region_type_kept:
  "selected_region_type_calc (session w) = Some (region_type inp, Inr (region_type inp)) \<Longrightarrow>
   selected_region_type inp w = (Inr (region_type inp), w)"
  by (simp add: selected_region_type_def reactive_calc_hit)

text \<open>
  In a session that has not yet computed them, \<^verbatim>\<open>selected_dataset\<close> asks the loader for
  the dataset of the region type and keeps what the loader returns or raises.
\<close>

lemma selected_dataset_run:
  assumes "selected_region_type_calc (session w) = None"
    and "selected_dataset_calc (session w) = None"
  shows "selected_dataset ev inp w =
     (case load_lcc_dataset ev (dataset_name (region_type inp)) w of
        (r, w1) \<Rightarrow>
          (r, w1\<lparr>session := (session w)\<lparr>
                 selected_region_type_calc := Some (region_type inp, Inr (region_type inp)),
                 selected_dataset_calc := Some (region_type inp, r)\<rparr>\<rparr>))"
proof -
  let ?w1 = "w\<lparr>session := (session w)\<lparr>selected_region_type_calc :=
           Some (region_type inp, Inr (region_type inp))\<rparr>\<rparr>"
  have k: "selected_region_type inp ?w1 = (Inr (region_type inp), ?w1)"
    by (rule selected_region_type_kept) simp
  have body: "andthen (selected_region_type inp) (\<lambda>t1.
        if t1 = ''County'' then load_lcc_dataset ev ''counties''
        else andthen (selected_region_type inp) (\<lambda>t2.
          if t2 = ''VELMA watershed'' then load_lcc_dataset ev ''velma''
          else load_lcc_dataset ev ''wrias'')) w =
      load_lcc_dataset ev (dataset_name (region_type inp)) ?w1"
    using assms(1) k by (simp add: andthen_def selected_region_type_run dataset_name_def)
  obtain r w2 where l: "load_lcc_dataset ev (dataset_name (region_type inp)) w = (r, w2)"
    by (cases "load_lcc_dataset ev (dataset_name (region_type inp)) w")
  have s2: "session w2 = session w"
    using load_session [of ev "dataset_name (region_type inp)" w] l by simp
  show ?thesis
    using assms(2) body l
    by (simp add: selected_dataset_def reactive_calc_run stale_def load_session_update)
qed

lemma andthen_Inl: "m w = (Inl e, w1) \<Longrightarrow> andthen m f w = (Inl e, w1)"
  by (simp add: andthen_def)

lemma andthen_Inr: "m w = (Inr x, w1) \<Longrightarrow> andthen m f w = f x w1"
  by (simp add: andthen_def)

text \<open>
  Claim C8. When the fetch of an uncached dataset fails, \<^verbatim>\<open>load_lcc_dataset\<close> raises that
  very error after exactly one fetch; nothing is entered into the loader's cache, and the
  next call of the loader with the same name fetches again and returns what that fetch
  answers. In a session that has not yet computed them, \<^verbatim>\<open>selected_dataset\<close>,
  \<^verbatim>\<open>plot_lcc\<close> and \<^verbatim>\<open>plot_lcc_area\<close> raise the same error when they ask for that dataset,
  after that one fetch; the session keeps the exception, so that evaluating them again
  with the same region type raises it again without any fetch.
\<close>

theorem fetch_failure_propagates:
  assumes miss: "map_of (cache w) name = None"
    and url: "dict_get lcc_data name = Inr url"
    and fail: "fetch_answer ev (length (fetched w)) url = Inl e"
  shows "load_lcc_dataset ev name w = (Inl e, w\<lparr>fetched := fetched w @ [url]\<rparr>)
    \<and> map_of (cache (snd (load_lcc_dataset ev name w))) name = None
    \<and> load_lcc_dataset ev name (snd (load_lcc_dataset ev name w)) =
        (case fetch_answer ev (Suc (length (fetched w))) url of
           Inl e' \<Rightarrow> (Inl e', w\<lparr>fetched := fetched w @ [url, url]\<rparr>)
         | Inr df \<Rightarrow>
             (Inr (length (heap w)),
              w\<lparr>fetched := fetched w @ [url, url], heap := heap w @ [DataFrame df],
                cache := take lru_maxsize ((name, length (heap w)) # cache w)\<rparr>))
    \<and> (selected_region_type_calc (session w) = None
        \<and> selected_dataset_calc (session w) = None
        \<and> dataset_name (region_type inp) = name \<longrightarrow>
         selected_dataset ev inp w = (Inl e, failed_session w url inp e)
         \<and> plot_lcc ev inp w = (Inl e, failed_session w url inp e)
         \<and> plot_lcc_area ev inp w = (Inl e, failed_session w url inp e)
         \<and> selected_dataset ev inp (failed_session w url inp e) =
             (Inl e, failed_session w url inp e)
         \<and> plot_lcc ev inp (failed_session w url inp e) = (Inl e, failed_session w url inp e)
         \<and> plot_lcc_area ev inp (failed_session w url inp e) =
             (Inl e, failed_session w url inp e)
         \<and> fetched (failed_session w url inp e) = fetched w @ [url]
         \<and> cache (failed_session w url inp e) = cache w
         \<and> heap (failed_session w url inp e) = heap w)"
proof -
  let ?w1 = "w\<lparr>fetched := fetched w @ [url]\<rparr>"
  let ?f = "failed_session w url inp e"
  have r: "read_csv_url ev url w = (Inl e, ?w1)"
    using fail by (simp add: read_csv_url_answer)
  have l: "load_lcc_dataset ev name w = (Inl e, ?w1)"
    using miss url r by (simp add: load_miss)
  have miss1: "map_of (cache ?w1) name = None"
    using miss by simp
  have again: "load_lcc_dataset ev name ?w1 =
        (case fetch_answer ev (Suc (length (fetched w))) url of
           Inl e' \<Rightarrow> (Inl e', w\<lparr>fetched := fetched w @ [url, url]\<rparr>)
         | Inr df \<Rightarrow>
             (Inr (length (heap w)),
              w\<lparr>fetched := fetched w @ [url, url], heap := heap w @ [DataFrame df],
                cache := take lru_maxsize ((name, length (heap w)) # cache w)\<rparr>))"
    using url by (simp add: load_miss [OF miss1] read_csv_url_answer split: sum.splits)
  have sel: "selected_dataset ev inp w = (Inl e, ?f)"
    if "selected_region_type_calc (session w) = None" "selected_dataset_calc (session w) = None"
      "dataset_name (region_type inp) = name"
    using that l by (simp add: selected_dataset_run failed_session_def)
  have kept: "selected_dataset ev inp ?f = (Inl e, ?f)"
    unfolding selected_dataset_def
    by (rule reactive_calc_hit) (simp add: failed_session_def)
  show ?thesis
    using l miss1 again sel kept
    by (simp add: plot_lcc_def plot_lcc_area_def andthen_Inl failed_session_def)
qed

theorem fetch_failure_propagates_witness:
  "map_of (cache init_world) ''counties'' = None
   \<and> dict_get lcc_data ''counties'' = Inr counties_url
   \<and> fetch_answer flaky_env (length (fetched init_world)) counties_url =
       Inl (FetchError counties_url)
   \<and> selected_region_type_calc (session init_world) = None
   \<and> selected_dataset_calc (session init_world) = None
   \<and> dataset_name (region_type demo_inputs) = ''counties''
   \<and> load_lcc_dataset flaky_env ''counties'' init_world =
       (Inl (FetchError counties_url), init_world\<lparr>fetched := [counties_url]\<rparr>)
   \<and> plot_lcc flaky_env demo_inputs init_world =
       (Inl (FetchError counties_url),
        failed_session init_world counties_url demo_inputs (FetchError counties_url))
   \<and> plot_lcc_area flaky_env demo_inputs
        (failed_session init_world counties_url demo_inputs (FetchError counties_url)) =
       (Inl (FetchError counties_url),
        failed_session init_world counties_url demo_inputs (FetchError counties_url))
   \<and> fetched (failed_session init_world counties_url demo_inputs (FetchError counties_url)) =
       [counties_url]
   \<and> load_lcc_dataset flaky_env ''counties'' (init_world\<lparr>fetched := [counties_url]\<rparr>) =
       (Inr 0, \<lparr>heap = [DataFrame demo_frame], cache = [(''counties'', 0)],
                fetched = [counties_url, counties_url], session = no_calcs\<rparr>)"
proof -
  have miss: "map_of (cache init_world) ''counties'' = None"
    by (simp add: init_world_def)
  have url: "dict_get lcc_data ''counties'' = Inr counties_url"
    by (simp add: dict_get_def lcc_data_def counties_url_def)
  have fail: "fetch_answer flaky_env (length (fetched init_world)) counties_url =
       Inl (FetchError counties_url)"
    by (simp add: fetch_answer_def flaky_env_def init_world_def)
  have next_ok: "fetch_answer flaky_env (Suc (length (fetched init_world))) counties_url =
       Inr demo_frame"
    by (simp add: fetch_answer_def flaky_env_def init_world_def)
  have fresh: "selected_region_type_calc (session init_world) = None"
    "selected_dataset_calc (session init_world) = None"
    "dataset_name (region_type demo_inputs) = ''counties''"
    by (simp_all add: init_world_def no_calcs_def dataset_name_def demo_inputs_def)
  note t = fetch_failure_propagates [OF miss url fail, of demo_inputs]
  have l: "load_lcc_dataset flaky_env ''counties'' init_world =
       (Inl (FetchError counties_url), init_world\<lparr>fetched := [counties_url]\<rparr>)"
    using t by (simp add: init_world_def)
  have p: "plot_lcc flaky_env demo_inputs init_world =
       (Inl (FetchError counties_url),
        failed_session init_world counties_url demo_inputs (FetchError counties_url))"
    using t fresh by simp
  have q: "plot_lcc_area flaky_env demo_inputs
        (failed_session init_world counties_url demo_inputs (FetchError counties_url)) =
       (Inl (FetchError counties_url),
        failed_session init_world counties_url demo_inputs (FetchError counties_url))"
    using t fresh by simp
  have f: "fetched (failed_session init_world counties_url demo_inputs (FetchError counties_url)) =
       [counties_url]"
    using t fresh by (simp add: init_world_def)
  have "load_lcc_dataset flaky_env ''counties''
          (snd (load_lcc_dataset flaky_env ''counties'' init_world)) =
        (case fetch_answer flaky_env (Suc (length (fetched init_world))) counties_url of
           Inl e' \<Rightarrow> (Inl e', init_world\<lparr>fetched := fetched init_world @ [counties_url, counties_url]\<rparr>)
         | Inr df \<Rightarrow>
             (Inr (length (heap init_world)),
              init_world\<lparr>fetched := fetched init_world @ [counties_url, counties_url],
                heap := heap init_world @ [DataFrame df],
                cache := take lru_maxsize ((''counties'', length (heap init_world)) # cache init_world)\<rparr>))"
    using t by blast
  then have a: "load_lcc_dataset flaky_env ''counties''
          (init_world\<lparr>fetched := [counties_url]\<rparr>) =
       (Inr 0, \<lparr>heap = [DataFrame demo_frame], cache = [(''counties'', 0)],
                fetched = [counties_url, counties_url], session = no_calcs\<rparr>)"
    unfolding l next_ok by (simp add: init_world_def lru_maxsize_def)
  show ?thesis
    using miss url fail fresh l p q f a by simp
qed

section \<open>Derived frames and their sources\<close>

lemma frames_kept_iff:
  "frames_kept w w' \<longleftrightarrow>
     (\<forall>a < length (heap w). kept_obj (heap w ! a) (obj_at w' a))"
  by (auto simp: frames_kept_def list_all_iff)

lemma frames_kept_refl: "frames_kept w w"
  by (auto simp: frames_kept_iff obj_at_def intro: kept_obj.elims(3))

lemma kept_obj_cases:
  "kept_obj ob r \<longleftrightarrow> (\<exists>ax. ob = Axes ax) \<or> r = Some ob"
  by (cases ob) auto

lemma frames_kept_trans:
  assumes "frames_kept w1 w2" and "frames_kept w2 w3"
  shows "frames_kept w1 w3"
  unfolding frames_kept_iff
proof (intro allI impI)
  fix a assume a: "a < length (heap w1)"
  then have k: "kept_obj (heap w1 ! a) (obj_at w2 a)"
    using assms(1) by (simp add: frames_kept_iff)
  show "kept_obj (heap w1 ! a) (obj_at w3 a)"
  proof (cases "\<exists>ax. heap w1 ! a = Axes ax")
    case True
    then show ?thesis by (auto simp: kept_obj_cases)
  next
    case False
    then have o2: "obj_at w2 a = Some (heap w1 ! a)"
      using k by (simp add: kept_obj_cases)
    then have a2: "a < length (heap w2)" and e: "heap w2 ! a = heap w1 ! a"
      by (auto simp: obj_at_def split: if_splits)
    have "kept_obj (heap w2 ! a) (obj_at w3 a)"
      using assms(2) a2 by (simp add: frames_kept_iff)
    then show ?thesis using False e by (simp add: kept_obj_cases)
  qed
qed

lemma frames_kept_frame:
  "frames_kept w w' \<Longrightarrow> frame_at w a = Some df \<Longrightarrow> frame_at w' a = Some df"
  by (auto simp: frames_kept_iff frame_at_def obj_at_def split: if_splits obj.splits)

lemma frames_kept_pivot:
  "frames_kept w w' \<Longrightarrow> pivot_at w a = Some p \<Longrightarrow> pivot_at w' a = Some p"
  by (auto simp: frames_kept_iff pivot_at_def obj_at_def split: if_splits obj.splits)

lemma frames_kept_append: "heap w' = heap w @ ys \<Longrightarrow> frames_kept w w'"
  by (auto simp: frames_kept_iff obj_at_def nth_append kept_obj_cases)

lemma kept_ret: "frames_kept w (snd (ret x w))"
  by (simp add: ret_def frames_kept_refl)

lemma kept_raise: "frames_kept w (snd (raise e w))"
  by (simp add: raise_def frames_kept_refl)

lemma kept_lift: "frames_kept w (snd (lift r w))"
  by (simp add: lift_def frames_kept_refl)

lemma kept_alloc: "frames_kept w (snd (alloc ob w))"
  by (simp add: alloc_def frames_kept_append)

lemma kept_the_frame: "frames_kept w (snd (the_frame a w))"
  by (simp add: the_frame_def frames_kept_refl split: option.splits)

lemma kept_the_pivot: "frames_kept w (snd (the_pivot a w))"
  by (simp add: the_pivot_def frames_kept_refl split: option.splits)

lemma kept_andthen:
  assumes "\<And>w. frames_kept w (snd (m w))" and "\<And>x w. frames_kept w (snd (f x w))"
  shows "frames_kept w (snd (andthen m f w))"
proof (cases "m w")
  case (Pair r w1)
  have k1: "frames_kept w w1" using assms(1) [of w] Pair by simp
  show ?thesis
  proof (cases r)
    case (Inl e)
    then show ?thesis using Pair k1 by (simp add: andthen_def)
  next
    case (Inr x)
    have "frames_kept w1 (snd (f x w1))" by (rule assms(2))
    then show ?thesis using Pair Inr k1 by (auto simp: andthen_def intro: frames_kept_trans)
  qed
qed

lemma kept_ax_update: "frames_kept w (snd (ax_update a f w))"
proof (cases "axes_at w a")
  case None
  then show ?thesis by (simp add: ax_update_def frames_kept_refl)
next
  case (Some ax)
  then have "a < length (heap w)" and "heap w ! a = Axes ax"
    by (auto simp: axes_at_def obj_at_def split: if_splits obj.splits)
  then show ?thesis
    using Some
    by (auto simp: ax_update_def frames_kept_iff obj_at_def nth_list_update kept_obj_cases)
qed

lemmas kept_setters =
  kept_ax_update [of _ _ "\<lambda>ax. ax\<lparr>ylabel := s\<rparr>" for s, folded set_ylabel_def]
  kept_ax_update [of _ _ "\<lambda>ax. ax\<lparr>xlabel := s\<rparr>" for s, folded set_xlabel_def]
  kept_ax_update [of _ _ "\<lambda>ax. ax\<lparr>title := s\<rparr>" for s, folded set_title_def]
  kept_ax_update [of _ _ "\<lambda>ax. ax\<lparr>legend := Some s\<rparr>" for s, folded set_legend_def]
  kept_ax_update [of _ _ "\<lambda>ax. ax\<lparr>drawn := drawn ax @ [d]\<rparr>" for d, folded ax_draw_def]

lemma kept_df_select_eq: "frames_kept w (snd (df_select_eq a c v w))"
  unfolding df_select_eq_def by (intro kept_andthen kept_the_frame kept_lift kept_alloc)

lemma kept_df_pivot_table: "frames_kept w (snd (df_pivot_table a i c v g f w))"
  unfolding df_pivot_table_def by (intro kept_andthen kept_the_frame kept_lift kept_alloc)

lemma kept_df_groupby_agg: "frames_kept w (snd (df_groupby_agg a k v w))"
  unfolding df_groupby_agg_def by (intro kept_andthen kept_the_frame kept_lift kept_alloc)

lemma kept_df_getcol: "frames_kept w (snd (df_getcol a c w))"
  unfolding df_getcol_def by (intro kept_andthen kept_the_frame kept_lift)

lemma kept_pivot_plot: "frames_kept w (snd (pivot_plot a how w))"
  unfolding pivot_plot_def
  by (intro kept_andthen kept_the_pivot) (simp add: kept_raise kept_alloc)

lemma kept_read_csv_url: "frames_kept w (snd (read_csv_url ev url w))"
proof -
  obtain ys where "heap (snd (read_csv_url ev url w)) = heap w @ ys"
    using read_csv_url_heap by blast
  then show ?thesis by (rule frames_kept_append)
qed

lemma kept_load: "frames_kept w (snd (load_lcc_dataset ev n w))"
proof -
  obtain ys where "heap (snd (load_lcc_dataset ev n w)) = heap w @ ys"
    using load_heap by blast
  then show ?thesis by (rule frames_kept_append)
qed

lemmas kept_intros =
  kept_andthen kept_ret kept_raise kept_lift kept_alloc kept_the_frame kept_the_pivot
  kept_setters kept_df_select_eq kept_df_pivot_table kept_df_groupby_agg kept_df_getcol
  kept_pivot_plot kept_read_csv_url kept_load

lemma kept_make_lcc_plot: "frames_kept w (snd (make_lcc_plot df rname w))"
  unfolding make_lcc_plot_def make_lcc_plot_pivot_def by (intro kept_intros)

lemma kept_make_lcc_area_plot: "frames_kept w (snd (make_lcc_area_plot df rname w))"
  unfolding make_lcc_area_plot_def make_lcc_area_plot_pivot_def by (intro kept_intros)

lemma kept_make_velma_plot: "frames_kept w (snd (make_velma_plot df ws var w))"
  unfolding make_velma_plot_def by (intro kept_intros)

lemma frames_kept_session_update [simp]:
  "frames_kept w (w'\<lparr>session := c\<rparr>) = frames_kept w w'"
  by (simp add: frames_kept_def)

lemma kept_reactive_calc:
  assumes "\<And>w. frames_kept w (snd (fn w))"
  shows "frames_kept w (snd (reactive_calc entry upd key fn w))"
proof (cases "stale (entry (session w)) key")
  case True
  then show ?thesis
    using assms [of w] by (cases "fn w") (simp add: reactive_calc_run)
next
  case False
  then obtain r where "entry (session w) = Some (key, r)"
    by (auto simp: stale_def split: option.splits)
  then show ?thesis by (simp add: reactive_calc_hit frames_kept_refl)
qed

lemma kept_selected_region_type: "frames_kept w (snd (selected_region_type inp w))"
  unfolding selected_region_type_def by (intro kept_reactive_calc kept_ret)

lemma kept_selected_dataset: "frames_kept w (snd (selected_dataset ev inp w))"
  unfolding selected_dataset_def
  by (intro kept_reactive_calc kept_andthen kept_selected_region_type)
    (auto intro!: kept_andthen kept_selected_region_type kept_load)

lemma kept_hydro_data: "frames_kept w (snd (hydro_data ev inp w))"
  unfolding hydro_data_def by (intro kept_reactive_calc kept_intros)

lemma kept_hydro_summary: "frames_kept w (snd (hydro_summary ev inp w))"
  unfolding hydro_summary_def by (intro kept_reactive_calc kept_intros kept_hydro_data)

lemma kept_timeseries_plot: "frames_kept w (snd (timeseries_plot ev inp w))"
  unfolding timeseries_plot_def by (intro kept_intros kept_hydro_summary)

lemma select_step:
  "df_select_eq a c v w =
     (case frame_at w a of
        None \<Rightarrow> (Inl (TypeError ''DataFrame''), w)
      | Some df \<Rightarrow>
          (case select_eq df c v of
             Inl e \<Rightarrow> (Inl e, w)
           | Inr d \<Rightarrow> (Inr (length (heap w)), w\<lparr>heap := heap w @ [DataFrame d]\<rparr>)))"
  by (simp add: df_select_eq_def andthen_def the_frame_def lift_def alloc_def
      split: option.splits sum.splits)

lemma pivot_step:
  "df_pivot_table a i c v g f w =
     (case frame_at w a of
        None \<Rightarrow> (Inl (TypeError ''DataFrame''), w)
      | Some df \<Rightarrow>
          (case pivot_table df i c v g f of
             Inl e \<Rightarrow> (Inl e, w)
           | Inr p \<Rightarrow> (Inr (length (heap w)), w\<lparr>heap := heap w @ [PivotTable p]\<rparr>)))"
  by (simp add: df_pivot_table_def andthen_def the_frame_def lift_def alloc_def
      split: option.splits sum.splits)

lemma groupby_step:
  "df_groupby_agg a k v w =
     (case frame_at w a of
        None \<Rightarrow> (Inl (TypeError ''DataFrame''), w)
      | Some df \<Rightarrow>
          (case groupby_agg df k v of
             Inl e \<Rightarrow> (Inl e, w)
           | Inr s \<Rightarrow> (Inr (length (heap w)), w\<lparr>heap := heap w @ [DataFrame s]\<rparr>)))"
  by (simp add: df_groupby_agg_def andthen_def the_frame_def lift_def alloc_def
      split: option.splits sum.splits)

lemma frame_at_new [simp]:
  "frame_at (w\<lparr>heap := heap w @ [DataFrame d]\<rparr>) (length (heap w)) = Some d"
  by (simp add: frame_at_def obj_at_def)

lemma obj_at_new [simp]:
  "obj_at (w\<lparr>heap := heap w @ [ob]\<rparr>) (length (heap w)) = Some ob"
  by (simp add: obj_at_def)

lemma region_pivot_step:
  "andthen (df_select_eq a ''Feature_Name'' (Str rname))
       (\<lambda>df1. df_pivot_table df1 ''Year'' ''Landcover_Class'' val agg (Some 0)) w =
     (case frame_at w a of
        None \<Rightarrow> (Inl (TypeError ''DataFrame''), w)
      | Some df \<Rightarrow>
          (case select_eq df ''Feature_Name'' (Str rname) of
             Inl e \<Rightarrow> (Inl e, w)
           | Inr d \<Rightarrow>
               (case pivot_table d ''Year'' ''Landcover_Class'' val agg (Some 0) of
                  Inl e \<Rightarrow> (Inl e, w\<lparr>heap := heap w @ [DataFrame d]\<rparr>)
                | Inr p \<Rightarrow>
                    (Inr (Suc (length (heap w))),
                     w\<lparr>heap := heap w @ [DataFrame d, PivotTable p]\<rparr>))))"
  by (simp add: andthen_def select_step pivot_step split: option.splits sum.splits)

lemma region_pivot_result:
  "result_obj (andthen (df_select_eq a ''Feature_Name'' (Str rname))
       (\<lambda>df1. df_pivot_table df1 ''Year'' ''Landcover_Class'' val agg (Some 0)) w) =
     (case frame_at w a of
        None \<Rightarrow> Inl (TypeError ''DataFrame'')
      | Some df \<Rightarrow>
          (case region_pivot df rname val agg of
             Inl e \<Rightarrow> Inl e
           | Inr p \<Rightarrow> Inr (Some (PivotTable p))))"
  by (simp add: region_pivot_step region_pivot_def obj_at_def nth_append
      split: option.splits sum.splits)

lemma groupby_result:
  "result_obj (df_groupby_agg a k v w) =
     (case frame_at w a of
        None \<Rightarrow> Inl (TypeError ''DataFrame'')
      | Some df \<Rightarrow>
          (case groupby_agg df k v of
             Inl e \<Rightarrow> Inl e
           | Inr s \<Rightarrow> Inr (Some (DataFrame s))))"
  by (simp add: groupby_step split: option.splits sum.splits)

lemma hydro_data_run:
  assumes "stale (hydro_data_calc (session w)) (river inp)"
  shows "hydro_data ev inp w =
     (case dict_get river_files (river inp) of
        Inl e \<Rightarrow>
          (Inl e, w\<lparr>session := (session w)\<lparr>hydro_data_calc := Some (river inp, Inl e)\<rparr>\<rparr>)
      | Inr url \<Rightarrow>
          (case fetch_answer ev (length (fetched w)) url of
             Inl e \<Rightarrow>
               (Inl e, w\<lparr>fetched := fetched w @ [url],
                         session := (session w)\<lparr>hydro_data_calc := Some (river inp, Inl e)\<rparr>\<rparr>)
           | Inr df \<Rightarrow>
               (Inr (length (heap w)),
                w\<lparr>fetched := fetched w @ [url], heap := heap w @ [DataFrame df],
                  session := (session w)\<lparr>hydro_data_calc :=
                    Some (river inp, Inr (length (heap w)))\<rparr>\<rparr>)))"
  using assms
  by (simp add: hydro_data_def reactive_calc_run andthen_def lift_def read_csv_url_answer
      split: sum.splits)

lemma hydro_summary_result:
  assumes "stale (hydro_summary_calc (session w)) (river inp, variable inp)"
    and "stale (hydro_data_calc (session w)) (river inp)"
  shows "result_obj (hydro_summary ev inp w) =
     (case dict_get river_files (river inp) of
        Inl e \<Rightarrow> Inl e
      | Inr url \<Rightarrow>
          (case fetch_answer ev (length (fetched w)) url of
             Inl e \<Rightarrow> Inl e
           | Inr df \<Rightarrow>
               (case groupby_agg df ''Year'' (variable inp) of
                  Inl e \<Rightarrow> Inl e
                | Inr s \<Rightarrow> Inr (Some (DataFrame s)))))"
  using assms
  by (simp add: hydro_summary_def reactive_calc_run hydro_data_run andthen_def
      groupby_step frame_at_def obj_at_def nth_append split: sum.splits)

lemma hydro_summary_again:
  "hydro_summary ev inp (snd (hydro_summary ev inp w)) = hydro_summary ev inp w"
  unfolding hydro_summary_def by (rule reactive_calc_again) simp

lemma frame_at_after:
  assumes "\<And>w. frames_kept w (snd (m w))"
    and "\<And>w. frame_at w a = None \<Longrightarrow> snd (m w) = w"
  shows "frame_at (snd (m w)) a = frame_at w a"
proof (cases "frame_at w a")
  case None
  then show ?thesis using assms(2) by simp
next
  case (Some df)
  then show ?thesis using assms(1) [of w] by (simp add: frames_kept_frame)
qed

text \<open>
  Claim C5. The derived frame of a pivot or aggregation step is determined by the content
  of the source frame and the selection: two evaluations on the same content, in any two
  worlds and through any two references, give the same derived frame or the same
  exception; so does a second evaluation right after the first. The summary of
  \<^verbatim>\<open>hydro_summary\<close>, which fetches its dataset, is the same whenever the fetch answers
  the same and the session holds no result for the selection; a second evaluation right
  after the first returns the result the session has kept.
\<close>

theorem derived_frames_deterministic:
  assumes same: "frame_at w a = frame_at w' a'"
  shows "result_obj (make_lcc_plot_pivot a rname w) = result_obj (make_lcc_plot_pivot a' rname w')
    \<and> result_obj (make_lcc_area_plot_pivot a rname w) =
        result_obj (make_lcc_area_plot_pivot a' rname w')
    \<and> result_obj (df_groupby_agg a ''Year'' var w) = result_obj (df_groupby_agg a' ''Year'' var w')
    \<and> result_obj (make_lcc_plot_pivot a rname (snd (make_lcc_plot_pivot a rname w))) =
        result_obj (make_lcc_plot_pivot a rname w)
    \<and> result_obj (make_lcc_area_plot_pivot a rname (snd (make_lcc_area_plot_pivot a rname w))) =
        result_obj (make_lcc_area_plot_pivot a rname w)
    \<and> result_obj (df_groupby_agg a ''Year'' var (snd (df_groupby_agg a ''Year'' var w))) =
        result_obj (df_groupby_agg a ''Year'' var w)
    \<and> ((\<forall>url. fetch_answer ev (length (fetched w)) url = fetch_answer ev (length (fetched w')) url)
        \<and> stale (hydro_summary_calc (session w)) (river inp, variable inp)
        \<and> stale (hydro_data_calc (session w)) (river inp)
        \<and> stale (hydro_summary_calc (session w')) (river inp, variable inp)
        \<and> stale (hydro_data_calc (session w')) (river inp)
        \<longrightarrow> result_obj (hydro_summary ev inp w) = result_obj (hydro_summary ev inp w'))
    \<and> hydro_summary ev inp (snd (hydro_summary ev inp w)) = hydro_summary ev inp w"
proof -
  have p1: "frame_at (snd (make_lcc_plot_pivot a rname w)) a = frame_at w a"
  proof (rule frame_at_after)
    show "frames_kept w (snd (make_lcc_plot_pivot a rname w))" for w
      unfolding make_lcc_plot_pivot_def by (intro kept_intros)
    show "frame_at w a = None \<Longrightarrow> snd (make_lcc_plot_pivot a rname w) = w" for w
      by (simp add: make_lcc_plot_pivot_def region_pivot_step)
  qed
  have p2: "frame_at (snd (make_lcc_area_plot_pivot a rname w)) a = frame_at w a"
  proof (rule frame_at_after)
    show "frames_kept w (snd (make_lcc_area_plot_pivot a rname w))" for w
      unfolding make_lcc_area_plot_pivot_def by (intro kept_intros)
    show "frame_at w a = None \<Longrightarrow> snd (make_lcc_area_plot_pivot a rname w) = w" for w
      by (simp add: make_lcc_area_plot_pivot_def region_pivot_step)
  qed
  have p3: "frame_at (snd (df_groupby_agg a ''Year'' var w)) a = frame_at w a"
  proof (rule frame_at_after)
    show "frames_kept w (snd (df_groupby_agg a ''Year'' var w))" for w
      by (rule kept_df_groupby_agg)
    show "frame_at w a = None \<Longrightarrow> snd (df_groupby_agg a ''Year'' var w) = w" for w
      by (simp add: groupby_step)
  qed
  have h: "result_obj (hydro_summary ev inp w) = result_obj (hydro_summary ev inp w')"
    if "\<forall>url. fetch_answer ev (length (fetched w)) url = fetch_answer ev (length (fetched w')) url"
      and "stale (hydro_summary_calc (session w)) (river inp, variable inp)"
      and "stale (hydro_data_calc (session w)) (river inp)"
      and "stale (hydro_summary_calc (session w')) (river inp, variable inp)"
      and "stale (hydro_data_calc (session w')) (river inp)"
    using that by (cases "dict_get river_files (river inp)") (simp_all add: hydro_summary_result)
  have q: "result_obj (make_lcc_plot_pivot b rname v) =
      (case frame_at v b of
         None \<Rightarrow> Inl (TypeError ''DataFrame'')
       | Some df \<Rightarrow>
           (case region_pivot df rname ''diff_dev'' Mean of
              Inl e \<Rightarrow> Inl e
            | Inr p \<Rightarrow> Inr (Some (PivotTable p))))" for b v
    by (simp add: make_lcc_plot_pivot_def region_pivot_result)
  have r: "result_obj (make_lcc_area_plot_pivot b rname v) =
      (case frame_at v b of
         None \<Rightarrow> Inl (TypeError ''DataFrame'')
       | Some df \<Rightarrow>
           (case region_pivot df rname ''Developable_Area_km2'' Sum of
              Inl e \<Rightarrow> Inl e
            | Inr p \<Rightarrow> Inr (Some (PivotTable p))))" for b v
    by (simp add: make_lcc_area_plot_pivot_def region_pivot_result)
  show ?thesis
    using same p1 p2 p3 h by (simp add: q r groupby_result hydro_summary_again)
qed

theorem derived_frames_deterministic_witness:
  "frame_at demo_loaded 0 = frame_at demo_two 1
   \<and> result_obj (make_lcc_plot_pivot 0 ''King'' demo_loaded) =
       result_obj (make_lcc_plot_pivot 1 ''King'' demo_two)
   \<and> result_obj (make_lcc_plot_pivot 0 ''King'' demo_loaded) =
       Inr (Some (PivotTable
         \<lparr>pindex = [Num 2015, Num 2020], pcolumns = [Str ''Agriculture'', Str ''Forest''],
          pvalues = [[Some 0, Some 0], [Some 1, Some (- 2)]]\<rparr>))
   \<and> result_obj (make_lcc_plot_pivot 0 ''King'' (snd (make_lcc_plot_pivot 0 ''King'' demo_loaded))) =
       result_obj (make_lcc_plot_pivot 0 ''King'' demo_loaded)
   \<and> fetched demo_loaded \<noteq> fetched demo_two
   \<and> result_obj (hydro_summary demo_env demo_inputs demo_loaded) =
       result_obj (hydro_summary demo_env demo_inputs demo_two)
   \<and> result_obj (hydro_summary demo_env demo_inputs demo_loaded) =
       Inr (Some (DataFrame
         \<lparr>columns = [''Year'', ''min'', ''max'', ''mean''],
          rows = [[Num 2011, Num 2, Num 7, Num 5], [Num 2012, Num 4, Num 4, Num 4]]\<rparr>))
   \<and> hydro_summary demo_env demo_inputs (snd (hydro_summary demo_env demo_inputs demo_loaded)) =
       hydro_summary demo_env demo_inputs demo_loaded"
proof -
  have same: "frame_at demo_loaded 0 = frame_at demo_two 1"
    by code_simp
  have val: "result_obj (make_lcc_plot_pivot 0 ''King'' demo_loaded) =
       Inr (Some (PivotTable
         \<lparr>pindex = [Num 2015, Num 2020], pcolumns = [Str ''Agriculture'', Str ''Forest''],
          pvalues = [[Some 0, Some 0], [Some 1, Some (- 2)]]\<rparr>))"
    by code_simp
  have fa: "\<forall>url. fetch_answer demo_env (length (fetched demo_loaded)) url =
      fetch_answer demo_env (length (fetched demo_two)) url"
    by (simp add: fetch_answer_def demo_env_def)
  have ne: "fetched demo_loaded \<noteq> fetched demo_two"
    by code_simp
  have st: "stale (hydro_summary_calc (session demo_loaded)) (river demo_inputs, variable demo_inputs)"
    "stale (hydro_data_calc (session demo_loaded)) (river demo_inputs)"
    "stale (hydro_summary_calc (session demo_two)) (river demo_inputs, variable demo_inputs)"
    "stale (hydro_data_calc (session demo_two)) (river demo_inputs)"
    by (simp_all add: demo_loaded_def demo_two_def no_calcs_def stale_def)
  have hv: "result_obj (hydro_summary demo_env demo_inputs demo_loaded) =
       Inr (Some (DataFrame
         \<lparr>columns = [''Year'', ''min'', ''max'', ''mean''],
          rows = [[Num 2011, Num 2, Num 7, Num 5], [Num 2012, Num 4, Num 4, Num 4]]\<rparr>))"
    by code_simp
  note t = derived_frames_deterministic [OF same, where rname = "''King''" and var = "''Q''"
      and ev = demo_env and inp = demo_inputs]
  have hy: "result_obj (hydro_summary demo_env demo_inputs demo_loaded) =
       result_obj (hydro_summary demo_env demo_inputs demo_two)"
    using t fa st by blast
  have ag: "hydro_summary demo_env demo_inputs (snd (hydro_summary demo_env demo_inputs demo_loaded)) =
       hydro_summary demo_env demo_inputs demo_loaded"
    using t by blast
  have pv: "result_obj (make_lcc_plot_pivot 0 ''King'' demo_loaded) =
       result_obj (make_lcc_plot_pivot 1 ''King'' demo_two)"
    "result_obj (make_lcc_plot_pivot 0 ''King'' (snd (make_lcc_plot_pivot 0 ''King'' demo_loaded))) =
       result_obj (make_lcc_plot_pivot 0 ''King'' demo_loaded)"
    using t by blast+
  show ?thesis
    using same val ne hy hv ag pv by blast
qed

text \<open>
  Claim C7. No frame of the store is changed by \<^verbatim>\<open>make_lcc_plot\<close>,
  \<^verbatim>\<open>make_lcc_area_plot\<close>, \<^verbatim>\<open>make_velma_plot\<close> or \<^verbatim>\<open>hydro_summary\<close>, nor by the outputs
  that call them: a frame found at an address before the call is found there, with the
  same content, after it, whether the call returns or raises. The calls make new objects
  and update only the axes they have made.
\<close>

theorem sources_never_mutated:
  assumes src: "frame_at w a = Some f"
  shows "frame_at (snd (make_lcc_plot df rname w)) a = Some f
    \<and> frame_at (snd (make_lcc_area_plot df rname w)) a = Some f
    \<and> frame_at (snd (make_velma_plot df watershed var w)) a = Some f
    \<and> frame_at (snd (hydro_summary ev inp w)) a = Some f
    \<and> frame_at (snd (plot_lcc ev inp w)) a = Some f
    \<and> frame_at (snd (plot_lcc_area ev inp w)) a = Some f
    \<and> frame_at (snd (timeseries_plot ev inp w)) a = Some f"
proof -
  have k1: "frames_kept w (snd (plot_lcc ev inp w))"
    unfolding plot_lcc_def by (intro kept_andthen kept_selected_dataset kept_make_lcc_plot)
  have k2: "frames_kept w (snd (plot_lcc_area ev inp w))"
    unfolding plot_lcc_area_def
    by (intro kept_andthen kept_selected_dataset kept_make_lcc_area_plot)
  note keep = frames_kept_frame [OF _ src]
  show ?thesis
    by (intro conjI keep k1 k2 kept_make_lcc_plot kept_make_lcc_area_plot
        kept_make_velma_plot kept_hydro_summary kept_timeseries_plot)
qed

theorem sources_never_mutated_witness:
  "frame_at demo_loaded 0 = Some demo_frame
   \<and> fst (make_lcc_plot 0 ''King'' demo_loaded) = Inr 3
   \<and> frame_at (snd (make_lcc_plot 0 ''King'' demo_loaded)) 0 = Some demo_frame
   \<and> fst (hydro_summary demo_env demo_inputs demo_loaded) = Inr 2
   \<and> frame_at (snd (hydro_summary demo_env demo_inputs demo_loaded)) 0 = Some demo_frame"
proof -
  have src: "frame_at demo_loaded 0 = Some demo_frame"
    by code_simp
  have r1: "fst (make_lcc_plot 0 ''King'' demo_loaded) = Inr 3"
    by code_simp
  have r2: "fst (hydro_summary demo_env demo_inputs demo_loaded) = Inr 2"
    by code_simp
  show ?thesis
    using src r1 r2
      sources_never_mutated [OF src, where df = 0 and rname = "''King''" and ev = demo_env
        and inp = demo_inputs]
    by simp
qed

section \<open>The pivots of the land-cover plots\<close>

lemma set_unique_acc: "set (unique_acc seen xs) = set seen \<union> set xs"
  by (induction xs arbitrary: seen) auto

lemma distinct_unique_acc: "distinct seen \<Longrightarrow> distinct (unique_acc seen xs)"
  by (induction xs arbitrary: seen) auto

lemma set_unique [simp]: "set (unique xs) = set xs"
  by (simp add: unique_def set_unique_acc)

lemma distinct_unique [simp]: "distinct (unique xs)"
  by (simp add: unique_def distinct_unique_acc)

lemma set_insert_cell [simp]: "set (insert_cell x ys) = insert x (set ys)"
  by (induction ys) auto

lemma distinct_insert_cell [simp]: "distinct (insert_cell x ys) \<longleftrightarrow> x \<notin> set ys \<and> distinct ys"
  by (induction ys) auto

lemma set_sort_cells [simp]: "set (sort_cells xs) = set xs"
  by (induction xs) auto

lemma distinct_sort_cells [simp]: "distinct (sort_cells xs) = distinct xs"
  by (induction xs) auto

lemma position_less: "x \<in> set xs \<Longrightarrow> position x xs < length xs"
  by (induction xs) auto

lemma nth_position: "x \<in> set xs \<Longrightarrow> xs ! position x xs = x"
  by (induction xs) auto

lemma present_Nil [simp]: "present [] = []"
  by (simp add: present_def)

lemma present_Cons [simp]:
  "present (v # vs) = (case v of None \<Rightarrow> present vs | Some x \<Rightarrow> x # present vs)"
  by (simp add: present_def split: option.splits)

lemma present_empty_iff: "present vs = [] \<longleftrightarrow> (\<forall>v \<in> set vs. v = None)"
  by (induction vs) (auto split: option.splits)

lemma present_map_Some [simp]: "present (map (\<lambda>x. Some (f x)) xs) = map f xs"
  by (induction xs) auto

lemma sum_present:
  "sum_list (present vs) = (\<Sum>v\<leftarrow>vs. case v of None \<Rightarrow> 0 | Some x \<Rightarrow> x)"
  by (induction vs) (auto split: option.splits)

lemma aggregate_mean_None: "aggregate Mean vs = None \<longleftrightarrow> present vs = []"
  by (simp add: Let_def)

lemma aggregate_sum_Some: "aggregate Sum vs = Some (sum_list (present vs))"
  by simp

lemma map_of_tabulate:
  "map_of (filter P (map (\<lambda>k. (k, f k)) ks)) k =
     (if k \<in> set ks \<and> P (k, f k) then Some (f k) else None)"
  by (induction ks) auto

lemma group_values_empty: "k \<notin> fst ` set kvs \<Longrightarrow> group_values k kvs = []"
  by (auto simp: group_values_def filter_empty_conv)

lemma lookup_kept:
  "(case map_of (kept_of kvs agg) k of None \<Rightarrow> None | Some v \<Rightarrow> v) =
     (if k \<in> fst ` set (grouped_of kvs) then aggregate agg (group_values k (grouped_of kvs))
      else None)"
  by (auto simp: kept_of_def map_of_tabulate)

lemma keys_kept:
  "fst ` set (kept_of kvs agg) =
     {k \<in> fst ` set (grouped_of kvs). aggregate agg (group_values k (grouped_of kvs)) \<noteq> None}"
proof -
  have "fst ` set (kept_of kvs agg) =
      {k \<in> set (unique (map fst (grouped_of kvs))).
         aggregate agg (group_values k (grouped_of kvs)) \<noteq> None}"
    unfolding kept_of_def by force
  then show ?thesis by simp
qed

lemma pivot_core_unfold:
  "pivot_core kvs agg fill =
     (let idx = sort_cells (unique (map (\<lambda>p. fst (fst p)) (kept_of kvs agg)));
          cols = sort_cells (unique (map (\<lambda>p. snd (fst p)) (kept_of kvs agg)));
          entry = (\<lambda>i c. fillna fill
                     (case map_of (kept_of kvs agg) (i, c) of None \<Rightarrow> None | Some v \<Rightarrow> v));
          cols' = filter (\<lambda>c. list_ex (\<lambda>i. entry i c \<noteq> None) idx) cols
      in \<lparr>pindex = idx, pcolumns = cols',
          pvalues = map (\<lambda>i. map (entry i) cols') idx\<rparr>)"
  by (simp add: pivot_core_def kept_of_def grouped_of_def Let_def)

lemma fillna_Some [simp]:
  "fillna (Some z) v = Some (case v of None \<Rightarrow> z | Some x \<Rightarrow> x)"
  by (simp add: fillna_def split: option.splits)

lemma list_ex_True: "xs \<noteq> [] \<Longrightarrow> list_ex (\<lambda>i. True) xs"
  by (cases xs) auto

lemma pivot_core_filled:
  "pivot_core kvs agg (Some z) =
     \<lparr>pindex = sort_cells (unique (map (\<lambda>p. fst (fst p)) (kept_of kvs agg))),
      pcolumns = sort_cells (unique (map (\<lambda>p. snd (fst p)) (kept_of kvs agg))),
      pvalues = map (\<lambda>i. map (\<lambda>c. fillna (Some z)
                     (case map_of (kept_of kvs agg) (i, c) of None \<Rightarrow> None | Some v \<Rightarrow> v))
                   (sort_cells (unique (map (\<lambda>p. snd (fst p)) (kept_of kvs agg)))))
                (sort_cells (unique (map (\<lambda>p. fst (fst p)) (kept_of kvs agg))))\<rparr>"
proof (cases "kept_of kvs agg = []")
  case True
  then show ?thesis by (simp add: pivot_core_unfold unique_def)
next
  case False
  then have "sort_cells (unique (map (\<lambda>p. fst (fst p)) (kept_of kvs agg))) \<noteq> []"
    by (metis list.map_disc_iff set_empty set_sort_cells set_unique)
  then have "list_ex (\<lambda>i. True) (sort_cells (unique (map (\<lambda>p. fst (fst p)) (kept_of kvs agg))))"
    by (rule list_ex_True)
  then show ?thesis by (simp add: pivot_core_unfold Let_def)
qed

lemma getcol_Inr:
  "getcol df c = Inr xs \<longleftrightarrow> c \<in> set (columns df) \<and> xs = map (field df c) (rows df)"
  by (auto simp: getcol_def col_index_def field_def)

lemma zip_map_same: "zip (map f xs) (map g xs) = map (\<lambda>x. (f x, g x)) xs"
  by (induction xs) auto

lemma pivot_table_Inr:
  assumes "pivot_table d idx col val agg fill = Inr p"
  shows "idx \<in> set (columns d)" "col \<in> set (columns d)" "val \<in> set (columns d)"
    "\<not> list_ex is_text (map (field d val) (rows d))"
    "p = pivot_core (triples d idx col val) agg fill"
  using assms
  by (auto simp: pivot_table_def numeric_def triples_def zip_map_same getcol_Inr
      split: sum.splits if_splits)

lemma numeric_cell_None: "\<not> is_text x \<Longrightarrow> numeric_cell x = None \<longleftrightarrow> x = NaN"
  by (cases x) auto

lemma set_group_values: "set (group_values k kvs) = {v. (k, v) \<in> set kvs}"
  by (auto simp: group_values_def image_iff)

lemma keys_kept_mean:
  "fst ` set (kept_of kvs Mean) = {k. \<exists>v. (k, Some v) \<in> set (grouped_of kvs)}"
proof -
  have "aggregate Mean (group_values k (grouped_of kvs)) \<noteq> None \<longleftrightarrow>
      (\<exists>v. (k, Some v) \<in> set (grouped_of kvs))" for k
    by (auto simp del: aggregate.simps simp: aggregate_mean_None present_empty_iff set_group_values)
  then show ?thesis
    unfolding keys_kept by force
qed

lemma keys_kept_sum: "fst ` set (kept_of kvs Sum) = fst ` set (grouped_of kvs)"
  unfolding keys_kept by simp

lemma grouped_triples:
  "grouped_of (triples d idx col val) =
     map (\<lambda>r. ((field d idx r, field d col r), numeric_cell (field d val r)))
       (filter (\<lambda>r. field d idx r \<noteq> NaN \<and> field d col r \<noteq> NaN) (rows d))"
  by (simp add: grouped_of_def triples_def filter_map comp_def)

lemma grouped_triples_mem:
  "(k, v) \<in> set (grouped_of (triples d idx col val)) \<longleftrightarrow>
     (\<exists>r \<in> set (rows d). k = (field d idx r, field d col r) \<and> field d idx r \<noteq> NaN
        \<and> field d col r \<noteq> NaN \<and> v = numeric_cell (field d val r))"
  by (auto simp: grouped_triples)

lemma keys_mean_frame:
  assumes "\<not> list_ex is_text (map (field d val) (rows d))"
  shows "fst ` set (kept_of (triples d idx col val) Mean) =
     (\<lambda>r. (field d idx r, field d col r)) ` set (complete_rows d idx col val)"
proof -
  have n: "(\<exists>v. Some v = numeric_cell (field d val r)) \<longleftrightarrow> field d val r \<noteq> NaN"
    if "r \<in> set (rows d)" for r
  proof -
    have "\<not> is_text (field d val r)" using assms that by (auto simp: list_ex_iff)
    then show ?thesis by (cases "field d val r") auto
  qed
  have "(\<exists>v. (k, Some v) \<in> set (grouped_of (triples d idx col val))) \<longleftrightarrow>
      k \<in> (\<lambda>r. (field d idx r, field d col r)) ` set (complete_rows d idx col val)" for k
    unfolding grouped_triples_mem complete_rows_def using n by (auto simp: image_iff) blast
  then show ?thesis
    unfolding keys_kept_mean by blast
qed

lemma group_values_triples:
  assumes "i \<noteq> NaN" "c \<noteq> NaN"
  shows "group_values (i, c) (grouped_of (triples d idx col val)) =
     map (\<lambda>r. numeric_cell (field d val r))
       (filter (\<lambda>r. field d idx r = i \<and> field d col r = c) (rows d))"
proof -
  have "filter (\<lambda>x. field d idx x = i \<and> field d col x = c)
        (filter (\<lambda>r. field d idx r \<noteq> NaN \<and> field d col r \<noteq> NaN) (rows d)) =
      filter (\<lambda>r. field d idx r = i \<and> field d col r = c) (rows d)"
    using assms by (auto intro: filter_cong)
  then show ?thesis
    by (simp add: group_values_def grouped_triples filter_map comp_def)
qed

lemma pindex_filled:
  "set (pindex (pivot_core kvs agg (Some z))) = fst ` fst ` set (kept_of kvs agg)"
  "distinct (pindex (pivot_core kvs agg (Some z)))"
  by (simp_all add: pivot_core_filled image_image)

lemma pcolumns_filled:
  "set (pcolumns (pivot_core kvs agg (Some z))) = snd ` fst ` set (kept_of kvs agg)"
  "distinct (pcolumns (pivot_core kvs agg (Some z)))"
  by (simp_all add: pivot_core_filled image_image)

lemma pvalues_shape:
  "length (pvalues (pivot_core kvs agg (Some z))) = length (pindex (pivot_core kvs agg (Some z)))"
  "vs \<in> set (pvalues (pivot_core kvs agg (Some z))) \<Longrightarrow>
     length vs = length (pcolumns (pivot_core kvs agg (Some z)))"
  by (auto simp: pivot_core_filled)

lemma kept_keys_grouped: "fst ` set (kept_of kvs agg) \<subseteq> fst ` set (grouped_of kvs)"
  unfolding keys_kept by blast

lemma grouped_keys_present:
  "k \<in> fst ` set (grouped_of kvs) \<Longrightarrow> fst k \<noteq> NaN \<and> snd k \<noteq> NaN"
  by (auto simp: grouped_of_def)

lemma pindex_present: "i \<in> set (pindex (pivot_core kvs agg (Some z))) \<Longrightarrow> i \<noteq> NaN"
  using kept_keys_grouped [of kvs agg] grouped_keys_present [of _ kvs]
  unfolding pindex_filled by (metis (no_types, lifting) imageE subsetD)

lemma pcolumns_present: "c \<in> set (pcolumns (pivot_core kvs agg (Some z))) \<Longrightarrow> c \<noteq> NaN"
  using kept_keys_grouped [of kvs agg] grouped_keys_present [of _ kvs]
  unfolding pcolumns_filled by (metis (no_types, lifting) imageE subsetD)

lemma pivot_row_filled:
  assumes "i \<in> set (pindex (pivot_core kvs agg (Some z)))"
  shows "pvalues (pivot_core kvs agg (Some z)) ! position i (pindex (pivot_core kvs agg (Some z))) =
     map (\<lambda>c. Some (case (if (i, c) \<in> fst ` set (grouped_of kvs)
                          then aggregate agg (group_values (i, c) (grouped_of kvs)) else None) of
                     None \<Rightarrow> z | Some x \<Rightarrow> x))
       (pcolumns (pivot_core kvs agg (Some z)))"
proof -
  let ?idx = "sort_cells (unique (map (\<lambda>p. fst (fst p)) (kept_of kvs agg)))"
  have i: "i \<in> set ?idx" using assms by (simp add: pivot_core_filled)
  then have "position i ?idx < length ?idx" "?idx ! position i ?idx = i"
    by (simp_all add: position_less nth_position)
  then show ?thesis
    by (simp add: pivot_core_filled lookup_kept del: set_sort_cells set_unique)
qed

lemma pivot_cell_filled:
  assumes "i \<in> set (pindex (pivot_core kvs agg (Some z)))"
    and "c \<in> set (pcolumns (pivot_core kvs agg (Some z)))"
  shows "pivot_cell (pivot_core kvs agg (Some z)) i c =
     Some (case (if (i, c) \<in> fst ` set (grouped_of kvs)
                 then aggregate agg (group_values (i, c) (grouped_of kvs)) else None) of
             None \<Rightarrow> z | Some x \<Rightarrow> x)"
proof -
  let ?cols = "pcolumns (pivot_core kvs agg (Some z))"
  have "position c ?cols < length ?cols" "?cols ! position c ?cols = c"
    using assms(2) by (simp_all add: position_less nth_position)
  then show ?thesis
    using assms by (simp add: pivot_cell_def pivot_row_filled)
qed

lemma mean_lookup:
  "(if k \<in> fst ` set kvs then aggregate Mean (group_values k kvs) else None) =
     aggregate Mean (group_values k kvs)"
  by (simp add: group_values_empty)

lemma select_eq_Inr:
  assumes "select_eq df c (Str v) = Inr d"
  shows "c \<in> set (columns df)" "columns d = columns df"
    "rows d = filter (\<lambda>r. field df c r = Str v) (rows df)"
proof -
  have "(\<lambda>r. cell_eq (field df c r) (Str v)) = (\<lambda>r. field df c r = Str v)"
    by (auto simp: cell_eq_def)
  then show "c \<in> set (columns df)" "columns d = columns df"
    "rows d = filter (\<lambda>r. field df c r = Str v) (rows df)"
    using assms
    by (auto simp: select_eq_def col_index_def field_def split: if_splits)
qed

lemma pivot_at_new [simp]:
  "pivot_at (w\<lparr>heap := heap w @ [ob, PivotTable p]\<rparr>) (Suc (length (heap w))) = Some p"
  by (simp add: pivot_at_def obj_at_def nth_append)

lemma region_pivot_run:
  assumes "frame_at w a = Some df"
    and "andthen (df_select_eq a ''Feature_Name'' (Str rname))
       (\<lambda>df1. df_pivot_table df1 ''Year'' ''Landcover_Class'' val agg (Some 0)) w = (Inr pa, w')"
  shows "\<exists>d p. select_eq df ''Feature_Name'' (Str rname) = Inr d
     \<and> pivot_table d ''Year'' ''Landcover_Class'' val agg (Some 0) = Inr p
     \<and> pivot_at w' pa = Some p"
  using assms by (auto simp: region_pivot_step split: sum.splits)

text \<open>
  Claim C1, as stated, fails: \<^verbatim>\<open>pivot_table\<close> drops a group whose mean is missing, so a
  year of the region whose rows have no \<^verbatim>\<open>diff_dev\<close> value gets no row. Here the region's
  rows have the years 2015 and 2020, and the pivot has the single row 2020.
\<close>

theorem lcc_pivot_shape_counterexample:
  "select_eq cx_frame ''Feature_Name'' (Str ''King'') = Inr cx_king
   \<and> unique_values cx_king ''Year'' = Inr [Num 2015, Num 2020]
   \<and> make_lcc_plot_pivot 0 ''King'' cx_world =
       (Inr 2, cx_world\<lparr>heap := [DataFrame cx_frame, DataFrame cx_king,
          PivotTable \<lparr>pindex = [Num 2020], pcolumns = [Str ''Forest''],
                      pvalues = [[Some 1]]\<rparr>]\<rparr>)
   \<and> \<not> claimed_shape cx_king
         \<lparr>pindex = [Num 2020], pcolumns = [Str ''Forest''], pvalues = [[Some 1]]\<rparr>"
  by code_simp

text \<open>
  Claim C1, amended. The pivot of \<^verbatim>\<open>make_lcc_plot\<close> has exactly one row per distinct year
  and one column per distinct land-cover class among the region's rows that have a year,
  a class and a \<^verbatim>\<open>diff_dev\<close> value; every row of values has one value per column; a cell
  whose year and class have no \<^verbatim>\<open>diff_dev\<close> value in the region is the fill value 0, and
  every other cell is the mean of the values of its year and class. When no row of the
  region lacks a year, a class or a \<^verbatim>\<open>diff_dev\<close> value, the pivot has the shape the
  scenario asks for.
\<close>

theorem lcc_pivot_shape:
  assumes src: "frame_at w a = Some df"
    and run: "make_lcc_plot_pivot a rname w = (Inr pa, w')"
  shows "\<exists>d p. select_eq df ''Feature_Name'' (Str rname) = Inr d
     \<and> rows d = filter (\<lambda>r. field df ''Feature_Name'' r = Str rname) (rows df)
     \<and> pivot_at w' pa = Some p
     \<and> distinct (pindex p)
     \<and> set (pindex p) = field d ''Year'' `
          set (complete_rows d ''Year'' ''Landcover_Class'' ''diff_dev'')
     \<and> distinct (pcolumns p)
     \<and> set (pcolumns p) = field d ''Landcover_Class'' `
          set (complete_rows d ''Year'' ''Landcover_Class'' ''diff_dev'')
     \<and> length (pvalues p) = length (pindex p)
     \<and> (\<forall>vs \<in> set (pvalues p). length vs = length (pcolumns p))
     \<and> (\<forall>i \<in> set (pindex p). \<forall>c \<in> set (pcolumns p).
          pivot_cell p i c =
            (if cell_values d ''Year'' ''Landcover_Class'' ''diff_dev'' i c = [] then Some 0
             else Some (sum_list (cell_values d ''Year'' ''Landcover_Class'' ''diff_dev'' i c)
                        / of_nat (length (cell_values d ''Year'' ''Landcover_Class'' ''diff_dev'' i c)))))
     \<and> (complete_rows d ''Year'' ''Landcover_Class'' ''diff_dev'' = rows d \<longrightarrow>
          claimed_shape d p)"
proof -
  obtain d p where sel: "select_eq df ''Feature_Name'' (Str rname) = Inr d"
    and piv: "pivot_table d ''Year'' ''Landcover_Class'' ''diff_dev'' Mean (Some 0) = Inr p"
    and at: "pivot_at w' pa = Some p"
    using region_pivot_run [OF src run [unfolded make_lcc_plot_pivot_def]] by blast
  let ?kvs = "triples d ''Year'' ''Landcover_Class'' ''diff_dev''"
  have num: "\<not> list_ex is_text (map (field d ''diff_dev'') (rows d))"
    and p: "p = pivot_core ?kvs Mean (Some 0)"
    using pivot_table_Inr [OF piv] by simp_all
  have keys: "fst ` set (kept_of ?kvs Mean) =
      (\<lambda>r. (field d ''Year'' r, field d ''Landcover_Class'' r)) `
        set (complete_rows d ''Year'' ''Landcover_Class'' ''diff_dev'')"
    using num by (rule keys_mean_frame)
  have idx: "set (pindex p) = field d ''Year'' `
      set (complete_rows d ''Year'' ''Landcover_Class'' ''diff_dev'')"
    unfolding p pindex_filled keys by (simp add: image_image)
  have cols: "set (pcolumns p) = field d ''Landcover_Class'' `
      set (complete_rows d ''Year'' ''Landcover_Class'' ''diff_dev'')"
    unfolding p pcolumns_filled keys by (simp add: image_image)
  have cell: "pivot_cell p i c =
      (if cell_values d ''Year'' ''Landcover_Class'' ''diff_dev'' i c = [] then Some 0
       else Some (sum_list (cell_values d ''Year'' ''Landcover_Class'' ''diff_dev'' i c)
                  / of_nat (length (cell_values d ''Year'' ''Landcover_Class'' ''diff_dev'' i c))))"
    if i: "i \<in> set (pindex p)" and c: "c \<in> set (pcolumns p)" for i c
  proof -
    have "i \<noteq> NaN" "c \<noteq> NaN"
      using i c pindex_present pcolumns_present unfolding p by blast+
    then have g: "present (group_values (i, c) (grouped_of ?kvs)) =
        cell_values d ''Year'' ''Landcover_Class'' ''diff_dev'' i c"
      by (simp add: group_values_triples cell_values_def)
    show ?thesis
      using i c unfolding p
      by (simp add: pivot_cell_filled mean_lookup g [symmetric] Let_def)
  qed
  have shape: "claimed_shape d p"
    if "complete_rows d ''Year'' ''Landcover_Class'' ''diff_dev'' = rows d"
    using that idx cols pindex_filled(2) [of ?kvs Mean 0] pcolumns_filled(2) [of ?kvs Mean 0]
    unfolding p [symmetric] by (simp add: claimed_shape_def)
  show ?thesis
    using sel at idx cols cell shape select_eq_Inr(3) [OF sel]
      pvalues_shape [where kvs = ?kvs and agg = Mean and z = 0]
      pindex_filled(2) [of ?kvs Mean 0] pcolumns_filled(2) [of ?kvs Mean 0]
    unfolding p [symmetric] by (intro exI [of _ d] exI [of _ p]) simp
qed

theorem lcc_pivot_shape_witness:
  "frame_at demo_loaded 0 = Some demo_frame
   \<and> fst (make_lcc_plot_pivot 0 ''King'' demo_loaded) = Inr 2
   \<and> (\<exists>d p. pivot_at (snd (make_lcc_plot_pivot 0 ''King'' demo_loaded)) 2 = Some p
        \<and> set (pindex p) = field d ''Year'' `
            set (complete_rows d ''Year'' ''Landcover_Class'' ''diff_dev'')
        \<and> length (pvalues p) = length (pindex p))
   \<and> pivot_at (snd (make_lcc_plot_pivot 0 ''King'' demo_loaded)) 2 =
       Some \<lparr>pindex = [Num 2015, Num 2020], pcolumns = [Str ''Agriculture'', Str ''Forest''],
             pvalues = [[Some 0, Some 0], [Some 1, Some (- 2)]]\<rparr>"
proof -
  have src: "frame_at demo_loaded 0 = Some demo_frame"
    by code_simp
  have r: "fst (make_lcc_plot_pivot 0 ''King'' demo_loaded) = Inr 2"
    by code_simp
  have run: "make_lcc_plot_pivot 0 ''King'' demo_loaded =
      (Inr 2, snd (make_lcc_plot_pivot 0 ''King'' demo_loaded))"
    using r by (metis prod.collapse)
  have v: "pivot_at (snd (make_lcc_plot_pivot 0 ''King'' demo_loaded)) 2 =
       Some \<lparr>pindex = [Num 2015, Num 2020], pcolumns = [Str ''Agriculture'', Str ''Forest''],
             pvalues = [[Some 0, Some 0], [Some 1, Some (- 2)]]\<rparr>"
    by code_simp
  show ?thesis
    using src r v lcc_pivot_shape [OF src run] by blast
qed

lemma field_select:
  "select_eq df c (Str v) = Inr d \<Longrightarrow> field d k = field df k"
  using select_eq_Inr(2) [of df c v d] by (intro ext) (simp add: field_def)

lemma select_eq_idem:
  assumes "select_eq df c (Str v) = Inr d"
  shows "select_eq d c (Str v) = Inr d"
proof -
  have c: "c \<in> set (columns d)" "columns d = columns df"
    using select_eq_Inr [OF assms] by simp_all
  have r: "rows d = filter (\<lambda>r. cell_eq (cell_at (position c (columns df)) r) (Str v)) (rows df)"
    using assms by (auto simp: select_eq_def col_index_def split: if_splits)
  have "filter (\<lambda>r. cell_eq (cell_at (position c (columns d)) r) (Str v)) (rows d) = rows d"
    unfolding c(2) r by simp
  then show ?thesis
    using c(1) by (simp add: select_eq_def col_index_def)
qed

text \<open>
  Claim C6. \<^verbatim>\<open>make_lcc_plot\<close> calls \<^verbatim>\<open>pivot_table\<close> without the \<^verbatim>\<open>aggfunc="sum"\<close> that its
  sibling \<^verbatim>\<open>make_lcc_area_plot\<close> passes, and so takes the mean of each group. On a frame
  with two rows for one region, year and class, the bar total of \<^verbatim>\<open>make_lcc_plot\<close> is the
  mean 2 of the two \<^verbatim>\<open>diff_dev\<close> values, where the sum of the column over the region's rows
  of the year is 4; on the same frame the bar total of \<^verbatim>\<open>make_lcc_area_plot\<close> is the sum
  12 of the two areas. Filtering the region's rows by the region again returns the same
  frame.
\<close>

theorem make_lcc_plot_total_is_not_the_sum:
  "make_lcc_plot_pivot 0 ''King'' dup_world =
       (Inr 2, dup_world\<lparr>heap := [DataFrame dup_frame, DataFrame dup_frame,
          PivotTable \<lparr>pindex = [Num 2020], pcolumns = [Str ''Forest''],
                      pvalues = [[Some 2]]\<rparr>]\<rparr>)
   \<and> row_total \<lparr>pindex = [Num 2020], pcolumns = [Str ''Forest''], pvalues = [[Some 2]]\<rparr>
         (Num 2020) = Some 2
   \<and> value_total dup_frame ''diff_dev'' (region_year_rows dup_frame ''King'' (Num 2020)) = 4
   \<and> make_lcc_area_plot_pivot 0 ''King'' dup_world =
       (Inr 2, dup_world\<lparr>heap := [DataFrame dup_frame, DataFrame dup_frame,
          PivotTable \<lparr>pindex = [Num 2020], pcolumns = [Str ''Forest''],
                      pvalues = [[Some 12]]\<rparr>]\<rparr>)
   \<and> row_total \<lparr>pindex = [Num 2020], pcolumns = [Str ''Forest''], pvalues = [[Some 12]]\<rparr>
         (Num 2020) = Some 12
   \<and> value_total dup_frame ''Developable_Area_km2''
         (region_year_rows dup_frame ''King'' (Num 2020)) = 12
   \<and> select_eq dup_frame ''Feature_Name'' (Str ''King'') = Inr dup_frame"
  by code_simp

section \<open>The start of the program, the selectors and the outputs\<close>

lemma andthen_InrE:
  assumes "andthen m f w = (Inr x, w')"
  obtains y w1 where "m w = (Inr y, w1)" and "f y w1 = (Inr x, w')"
  using assms by (auto simp: andthen_def split: prod.splits sum.splits)

lemma lift_Inr: "lift r w = (Inr x, w') \<longleftrightarrow> r = Inr x \<and> w' = w"
  by (auto simp: lift_def)

lemma ret_Inr: "ret x w = (Inr y, w') \<longleftrightarrow> y = x \<and> w' = w"
  by (auto simp: ret_def)

lemma df_columns_Inr:
  "df_columns a w = (Inr cols, w') \<longleftrightarrow>
     w' = w \<and> (\<exists>df. frame_at w a = Some df \<and> cols = columns df)"
  by (auto simp: df_columns_def andthen_def the_frame_def ret_def split: option.splits)

lemma df_unique_values_Inr:
  "df_unique_values a c w = (Inr xs, w') \<longleftrightarrow>
     w' = w \<and> (\<exists>df. frame_at w a = Some df \<and> unique_values df c = Inr xs)"
  by (auto simp: df_unique_values_def andthen_def the_frame_def lift_def split: option.splits)

lemma startup_trace:
  assumes "startup ev w0 = (Inr ap, w)"
  shows "\<exists>w1 w2 w3 w4 sdf cdf wdf vdf fdf flow.
      read_csv_url ev pullayup_url w0 = (Inr (sample_df ap), w1)
    \<and> frame_at w1 (sample_df ap) = Some sdf
    \<and> hydro_variable_options ap = variable_options (columns sdf)
    \<and> load_lcc_dataset ev ''counties'' w1 = (Inr (df_counties ap), w2)
    \<and> load_lcc_dataset ev ''wrias'' w2 = (Inr (df_wrias ap), w3)
    \<and> load_lcc_dataset ev ''velma'' w3 = (Inr (df_velma ap), w4)
    \<and> frame_at w4 (df_counties ap) = Some cdf
    \<and> unique_values cdf ''Feature_Name'' = Inr (county_list ap)
    \<and> frame_at w4 (df_wrias ap) = Some wdf
    \<and> unique_values wdf ''Feature_Name'' = Inr (wria_list ap)
    \<and> frame_at w4 (df_velma ap) = Some vdf
    \<and> unique_values vdf ''Feature_Name'' = Inr (velma_list ap)
    \<and> read_csv_url ev flow_url w4 = (Inr flow, w)
    \<and> frame_at w flow = Some fdf
    \<and> unique_values fdf ''Watershed'' = Inr (velma_watershed_choices ap)"
  using assms unfolding startup_def
  apply (elim andthen_InrE)
  apply (simp add: lift_Inr ret_Inr df_columns_Inr df_unique_values_Inr dict_get_def
      river_files_def velma_files_def pullayup_url_def flow_url_def)
  apply (elim conjE exE)
  apply simp
  done

lemma read_csv_url_cache_ok:
  assumes "cache_ok w" and "read_csv_url ev url w = (r, w1)"
  shows "cache_ok w1"
proof -
  have c: "cache w1 = cache w"
    using read_csv_url_cache [of ev url w] assms(2) by simp
  obtain ys where h: "heap w1 = heap w @ ys"
    using read_csv_url_heap [of ev url w] assms(2) by auto
  have "list_all (\<lambda>p. frame_at w (snd p) \<noteq> None) (cache w)"
    using assms(1) by (simp add: cache_ok_def)
  then have "list_all (\<lambda>p. frame_at w1 (snd p) \<noteq> None) (cache w)"
    using h by (rule list_all_frame_at_mono)
  then show ?thesis
    using assms(1) c by (simp add: cache_ok_def)
qed

lemma read_csv_url_frame:
  assumes "read_csv_url ev url w = (r, w1)" and "frame_at w a = Some df"
  shows "frame_at w1 a = Some df"
proof -
  obtain ys where "heap w1 = heap w @ ys"
    using read_csv_url_heap [of ev url w] assms(1) by auto
  then show ?thesis using assms(2) by (rule frame_at_append)
qed


lemma cached_frame:
  "cache_ok w \<Longrightarrow> map_of (cache w) n = Some a \<Longrightarrow> \<exists>df. frame_at w a = Some df"
  by (auto simp: cache_ok_def list_all_iff dest!: map_of_SomeD)

lemma startup_session:
  assumes st: "startup ev w0 = (Inr ap, w)"
  shows "session w = session w0"
proof -
  obtain w1 w2 w3 w4 flow where
      r1: "read_csv_url ev pullayup_url w0 = (Inr (sample_df ap), w1)"
    and l2: "load_lcc_dataset ev ''counties'' w1 = (Inr (df_counties ap), w2)"
    and l3: "load_lcc_dataset ev ''wrias'' w2 = (Inr (df_wrias ap), w3)"
    and l4: "load_lcc_dataset ev ''velma'' w3 = (Inr (df_velma ap), w4)"
    and r5: "read_csv_url ev flow_url w4 = (Inr flow, w)"
    using startup_trace [OF st] by blast
  have "session w1 = session w0"
    using read_csv_url_session [of ev pullayup_url w0] r1 by simp
  moreover have "session w2 = session w1"
    using load_session [of ev "''counties''" w1] l2 by simp
  moreover have "session w3 = session w2"
    using load_session [of ev "''wrias''" w2] l3 by simp
  moreover have "session w4 = session w3"
    using load_session [of ev "''velma''" w3] l4 by simp
  moreover have "session w = session w4"
    using read_csv_url_session [of ev flow_url w4] r5 by simp
  ultimately show ?thesis by simp
qed

lemma startup_datasets:
  assumes ok: "cache_ok w0" and st: "startup ev w0 = (Inr ap, w)"
  shows "cache_ok w"
    and "\<exists>df. map_of (cache w) ''counties'' = Some (df_counties ap)
          \<and> frame_at w (df_counties ap) = Some df
          \<and> unique_values df ''Feature_Name'' = Inr (county_list ap)"
    and "\<exists>df. map_of (cache w) ''wrias'' = Some (df_wrias ap)
          \<and> frame_at w (df_wrias ap) = Some df
          \<and> unique_values df ''Feature_Name'' = Inr (wria_list ap)"
    and "\<exists>df. map_of (cache w) ''velma'' = Some (df_velma ap)
          \<and> frame_at w (df_velma ap) = Some df
          \<and> unique_values df ''Feature_Name'' = Inr (velma_list ap)"
proof -
  obtain w1 w2 w3 w4 cdf wdf vdf flow where
      r1: "read_csv_url ev pullayup_url w0 = (Inr (sample_df ap), w1)"
    and l2: "load_lcc_dataset ev ''counties'' w1 = (Inr (df_counties ap), w2)"
    and l3: "load_lcc_dataset ev ''wrias'' w2 = (Inr (df_wrias ap), w3)"
    and l4: "load_lcc_dataset ev ''velma'' w3 = (Inr (df_velma ap), w4)"
    and fc: "frame_at w4 (df_counties ap) = Some cdf"
      "unique_values cdf ''Feature_Name'' = Inr (county_list ap)"
    and fw: "frame_at w4 (df_wrias ap) = Some wdf"
      "unique_values wdf ''Feature_Name'' = Inr (wria_list ap)"
    and fv: "frame_at w4 (df_velma ap) = Some vdf"
      "unique_values vdf ''Feature_Name'' = Inr (velma_list ap)"
    and r5: "read_csv_url ev flow_url w4 = (Inr flow, w)"
    using startup_trace [OF st] by blast
  have ok1: "cache_ok w1" using ok r1 by (rule read_csv_url_cache_ok)
  have ok2: "cache_ok w2" using load_cache_ok [OF ok1, of ev "''counties''"] l2 by simp
  have ok3: "cache_ok w3" using load_cache_ok [OF ok2, of ev "''wrias''"] l3 by simp
  have ok4: "cache_ok w4" using load_cache_ok [OF ok3, of ev "''velma''"] l4 by simp
  show ok5: "cache_ok w" using ok4 r5 by (rule read_csv_url_cache_ok)
  have c5: "cache w = cache w4"
    using read_csv_url_cache [of ev flow_url w4] r5 by simp
  have c2: "map_of (cache w2) ''counties'' = Some (df_counties ap)"
    using l2 by (rule load_result_cached)
  have c3: "map_of (cache w3) ''counties'' = Some (df_counties ap)"
    using load_keeps_entry [OF ok2 c2, of ev "''wrias''"] l3 by simp
  have c4: "map_of (cache w4) ''counties'' = Some (df_counties ap)"
    using load_keeps_entry [OF ok3 c3, of ev "''velma''"] l4 by simp
  have d3: "map_of (cache w3) ''wrias'' = Some (df_wrias ap)"
    using l3 by (rule load_result_cached)
  have d4: "map_of (cache w4) ''wrias'' = Some (df_wrias ap)"
    using load_keeps_entry [OF ok3 d3, of ev "''velma''"] l4 by simp
  have e4: "map_of (cache w4) ''velma'' = Some (df_velma ap)"
    using l4 by (rule load_result_cached)
  show "\<exists>df. map_of (cache w) ''counties'' = Some (df_counties ap)
          \<and> frame_at w (df_counties ap) = Some df
          \<and> unique_values df ''Feature_Name'' = Inr (county_list ap)"
    using c4 c5 fc read_csv_url_frame [OF r5 fc(1)] by simp
  show "\<exists>df. map_of (cache w) ''wrias'' = Some (df_wrias ap)
          \<and> frame_at w (df_wrias ap) = Some df
          \<and> unique_values df ''Feature_Name'' = Inr (wria_list ap)"
    using d4 c5 fw read_csv_url_frame [OF r5 fw(1)] by simp
  show "\<exists>df. map_of (cache w) ''velma'' = Some (df_velma ap)
          \<and> frame_at w (df_velma ap) = Some df
          \<and> unique_values df ''Feature_Name'' = Inr (velma_list ap)"
    using e4 c5 fv read_csv_url_frame [OF r5 fv(1)] by simp
qed

lemma selected_after_loads:
  assumes ok: "cache_ok w"
    and fresh: "selected_region_type_calc (session w) = None"
      "selected_dataset_calc (session w) = None"
    and c: "map_of (cache w) (dataset_name (region_type inp)) = Some a"
    and f: "frame_at w a = Some df"
  shows "\<exists>w'. selected_dataset ev inp (run_loads ev names w) = (Inr a, w')
      \<and> fetched w' = fetched (run_loads ev names w)
      \<and> heap w' = heap (run_loads ev names w)
      \<and> frame_at w' a = Some df"
proof -
  let ?v = "run_loads ev names w"
  let ?n = "dataset_name (region_type inp)"
  have c2: "map_of (cache ?v) ?n = Some a"
    using ok c by (rule run_loads_keeps_entry)
  have f2: "frame_at ?v a = Some df"
    using run_loads_heap f by (rule frame_at_prefix)
  have s2: "selected_region_type_calc (session ?v) = None"
    "selected_dataset_calc (session ?v) = None"
    using fresh by (simp_all add: run_loads_session)
  let ?h = "?v\<lparr>cache := (?n, a) # filter (\<lambda>p. fst p \<noteq> ?n) (cache ?v)\<rparr>"
  let ?w' = "?h\<lparr>session := (session ?v)\<lparr>
                 selected_region_type_calc := Some (region_type inp, Inr (region_type inp)),
                 selected_dataset_calc := Some (region_type inp, Inr a)\<rparr>\<rparr>"
  have "load_lcc_dataset ev ?n ?v = (Inr a, ?h)"
    using c2 by (rule load_hit)
  then have "selected_dataset ev inp ?v = (Inr a, ?w')"
    using s2 by (simp add: selected_dataset_run)
  moreover have "fetched ?w' = fetched ?v" "heap ?w' = heap ?v" by simp_all
  moreover have "frame_at ?w' a = Some df" using f2 by simp
  ultimately show ?thesis by blast
qed

lemma remdups_later:
  "x \<in> set ys \<Longrightarrow> remdups (xs @ x # ys) = remdups (xs @ ys)"
  by (induction xs) auto

lemma unique_acc_remdups:
  "distinct seen \<Longrightarrow> unique_acc seen xs = rev (remdups (rev xs @ seen))"
proof (induction xs arbitrary: seen)
  case Nil
  then show ?case by (simp add: distinct_remdups_id)
next
  case (Cons x xs)
  show ?case
  proof (cases "x \<in> set seen")
    case True
    then show ?thesis
      using Cons by (simp add: remdups_later)
  next
    case False
    then show ?thesis
      using Cons.IH [of "x # seen"] Cons.prems by simp
  qed
qed

lemma unique_first_occurrences: "unique xs = rev (remdups (rev xs))"
  by (simp add: unique_def unique_acc_remdups)

lemma unique_values_Inr:
  "unique_values df c = Inr ys \<longleftrightarrow> (\<exists>xs. getcol df c = Inr xs \<and> ys = unique xs)"
  by (auto simp: unique_values_def split: sum.splits)

lemma init_cache_ok: "cache_ok init_world"
  by (simp add: cache_ok_def init_world_def)

text \<open>
  Claim C2. After the program has started, in a session that has not yet computed its
  selected dataset, whatever the region type and after any further calls of the loader,
  the region selector offers exactly the unique \<^verbatim>\<open>Feature_Name\<close> values of the frame
  \<^verbatim>\<open>selected_dataset\<close> returns for that region type (counties for "County", velma for
  "VELMA watershed", wrias otherwise): every value of the column is offered, none twice,
  in the order of first appearance in the column; that call of \<^verbatim>\<open>selected_dataset\<close> is a
  hit of the loader's cache and fetches nothing.
\<close>

theorem region_selector_choices:
  assumes st: "startup ev init_world = (Inr ap, w)"
  shows "\<exists>a df w' xs. selected_dataset ev inp (run_loads ev names w) = (Inr a, w')
      \<and> a = (if region_type inp = ''County'' then df_counties ap
              else if region_type inp = ''VELMA watershed'' then df_velma ap
              else df_wrias ap)
      \<and> fetched w' = fetched (run_loads ev names w)
      \<and> heap w' = heap (run_loads ev names w)
      \<and> frame_at w' a = Some df
      \<and> getcol df ''Feature_Name'' = Inr xs
      \<and> distinct (choices (region_selector ap inp))
      \<and> set (choices (region_selector ap inp)) = set xs
      \<and> choices (region_selector ap inp) = rev (remdups (rev xs))
      \<and> unique_values df ''Feature_Name'' = Inr (choices (region_selector ap inp))
      \<and> input_id (region_selector ap inp) = ''region_name''"
proof -
  note d = startup_datasets [OF init_cache_ok st]
  have "session w = no_calcs"
    using startup_session [OF st] by (simp add: init_world_def)
  then have fresh: "selected_region_type_calc (session w) = None"
    "selected_dataset_calc (session w) = None"
    by (simp_all add: no_calcs_def)
  have main: "\<exists>a df w' xs. selected_dataset ev inp (run_loads ev names w) = (Inr a, w')
      \<and> a = b
      \<and> fetched w' = fetched (run_loads ev names w)
      \<and> heap w' = heap (run_loads ev names w)
      \<and> frame_at w' a = Some df
      \<and> getcol df ''Feature_Name'' = Inr xs
      \<and> distinct cl \<and> set cl = set xs \<and> cl = rev (remdups (rev xs))
      \<and> unique_values df ''Feature_Name'' = Inr cl"
    if c: "map_of (cache w) (dataset_name (region_type inp)) = Some b"
      and f: "frame_at w b = Some df0"
      and u: "unique_values df0 ''Feature_Name'' = Inr cl"
    for b df0 cl
  proof -
    obtain xs where g: "getcol df0 ''Feature_Name'' = Inr xs" and cl: "cl = unique xs"
      using u unfolding unique_values_Inr by blast
    obtain w' where "selected_dataset ev inp (run_loads ev names w) = (Inr b, w')"
      "fetched w' = fetched (run_loads ev names w)" "heap w' = heap (run_loads ev names w)"
      "frame_at w' b = Some df0"
      using selected_after_loads [OF d(1) fresh c f, of ev names] by blast
    moreover have "distinct cl" "set cl = set xs" "cl = rev (remdups (rev xs))"
      unfolding cl by (simp_all add: unique_first_occurrences [symmetric])
    ultimately show ?thesis using g u by blast
  qed
  consider (county) "region_type inp = ''County''"
    | (velma) "region_type inp \<noteq> ''County''" "region_type inp = ''VELMA watershed''"
    | (wria) "region_type inp \<noteq> ''County''" "region_type inp \<noteq> ''VELMA watershed''"
    by blast
  then show ?thesis
  proof cases
    case county
    obtain df where c: "map_of (cache w) ''counties'' = Some (df_counties ap)"
      and f: "frame_at w (df_counties ap) = Some df"
      and u: "unique_values df ''Feature_Name'' = Inr (county_list ap)"
      using d(2) by blast
    have "map_of (cache w) (dataset_name (region_type inp)) = Some (df_counties ap)"
      using c county by (simp add: dataset_name_def)
    from main [OF this f u]
    show ?thesis using county by (simp add: region_selector_def)
  next
    case velma
    obtain df where c: "map_of (cache w) ''velma'' = Some (df_velma ap)"
      and f: "frame_at w (df_velma ap) = Some df"
      and u: "unique_values df ''Feature_Name'' = Inr (velma_list ap)"
      using d(4) by blast
    have "map_of (cache w) (dataset_name (region_type inp)) = Some (df_velma ap)"
      using c velma by (simp add: dataset_name_def)
    from main [OF this f u]
    show ?thesis using velma by (simp add: region_selector_def)
  next
    case wria
    obtain df where c: "map_of (cache w) ''wrias'' = Some (df_wrias ap)"
      and f: "frame_at w (df_wrias ap) = Some df"
      and u: "unique_values df ''Feature_Name'' = Inr (wria_list ap)"
      using d(3) by blast
    have "map_of (cache w) (dataset_name (region_type inp)) = Some (df_wrias ap)"
      using c wria by (simp add: dataset_name_def)
    from main [OF this f u]
    show ?thesis using wria by (simp add: region_selector_def)
  qed
qed

theorem region_selector_choices_witness:
  "fst (startup demo_env init_world) = Inr demo_app
   \<and> getcol demo_wrias ''Feature_Name'' =
       Inr [Str ''Puyallup'', Str ''Nisqually'', Str ''Puyallup'', Str ''Nisqually'',
            Str ''Puyallup'']
   \<and> choices (region_selector demo_app (demo_inputs\<lparr>region_type := ''WRIA''\<rparr>)) =
       [Str ''Puyallup'', Str ''Nisqually'']
   \<and> (\<exists>df w' xs. selected_dataset demo_env (demo_inputs\<lparr>region_type := ''WRIA''\<rparr>)
          (run_loads demo_env [''counties''] (snd (startup demo_env init_world))) = (Inr 2, w')
        \<and> fetched w' =
            fetched (run_loads demo_env [''counties''] (snd (startup demo_env init_world)))
        \<and> frame_at w' 2 = Some df
        \<and> getcol df ''Feature_Name'' = Inr xs
        \<and> distinct [Str ''Puyallup'', Str ''Nisqually'']
        \<and> set [Str ''Puyallup'', Str ''Nisqually''] = set xs
        \<and> [Str ''Puyallup'', Str ''Nisqually''] = rev (remdups (rev xs)))"
proof -
  have r: "fst (startup demo_env init_world) = Inr demo_app"
    by code_simp
  have st: "startup demo_env init_world = (Inr demo_app, snd (startup demo_env init_world))"
    using r by (metis prod.collapse)
  have g: "getcol demo_wrias ''Feature_Name'' =
       Inr [Str ''Puyallup'', Str ''Nisqually'', Str ''Puyallup'', Str ''Nisqually'',
            Str ''Puyallup'']"
    by code_simp
  have ch: "choices (region_selector demo_app (demo_inputs\<lparr>region_type := ''WRIA''\<rparr>)) =
       [Str ''Puyallup'', Str ''Nisqually'']"
    by code_simp
  have rt: "region_type (demo_inputs\<lparr>region_type := ''WRIA''\<rparr>) = ''WRIA''"
    "df_wrias demo_app = 2"
    by (simp_all add: demo_app_def)
  have "\<exists>df w' xs. selected_dataset demo_env (demo_inputs\<lparr>region_type := ''WRIA''\<rparr>)
          (run_loads demo_env [''counties''] (snd (startup demo_env init_world))) = (Inr 2, w')
        \<and> fetched w' =
            fetched (run_loads demo_env [''counties''] (snd (startup demo_env init_world)))
        \<and> frame_at w' 2 = Some df
        \<and> getcol df ''Feature_Name'' = Inr xs
        \<and> distinct [Str ''Puyallup'', Str ''Nisqually'']
        \<and> set [Str ''Puyallup'', Str ''Nisqually''] = set xs
        \<and> [Str ''Puyallup'', Str ''Nisqually''] = rev (remdups (rev xs))"
    using region_selector_choices [OF st, of "demo_inputs\<lparr>region_type := ''WRIA''\<rparr>"
        "[''counties'']"]
    unfolding rt ch by (simp del: set_simps distinct.simps) blast
  then show ?thesis
    using r g ch by blast
qed







text \<open>
  Claim C9. The server registers four outputs: \<^verbatim>\<open>region_selector\<close>, \<^verbatim>\<open>plot_lcc\<close>,
  \<^verbatim>\<open>plot_lcc_area\<close> and \<^verbatim>\<open>timeseries_plot\<close>. The page declares the plot slot
  \<^verbatim>\<open>velma_monthly_plot\<close>, for which the server defines no function at all, and no function
  defined in the server calls \<^verbatim>\<open>make_velma_plot\<close>.
\<close>

theorem velma_monthly_plot_never_rendered:
  "map fst (server ap ev inp) =
     [''region_selector'', ''plot_lcc'', ''plot_lcc_area'', ''timeseries_plot'']
   \<and> map fst (filter (\<lambda>f. fst (snd f) = Render_ui \<or> fst (snd f) = Render_plot) server_functions) =
       map fst (server ap ev inp)
   \<and> ''velma_monthly_plot'' \<in> set app_ui_outputs
   \<and> map_of (server ap ev inp) ''velma_monthly_plot'' = None
   \<and> ''velma_monthly_plot'' \<notin> set (map fst server_functions)
   \<and> ''make_velma_plot'' \<in> set (map fst server_functions)
   \<and> ''make_velma_plot'' \<notin> set (concat (map (\<lambda>f. snd (snd f)) server_functions))"
  by (simp add: server_def server_functions_def app_ui_outputs_def)

end
